theory Spec2Isabelle
  imports Complex_Main "HOL-Library.Word" "HOL-Library.Log_Nat"
begin

unbundle bit_operations_syntax

section \<open>The SMC user-space API (smc.c, smc.h) as HOL functions\<close>

text \<open>
  The development follows \<^verbatim>\<open>vendor/github.com/shirou/gopsutil/host/include/smc.c\<close>.
  C values are modelled as follows.
  \<^item> \<^verbatim>\<open>uint8_t\<close>, \<^verbatim>\<open>uint32_t\<close>, \<^verbatim>\<open>unsigned int\<close>, \<^verbatim>\<open>int\<close> and \<^verbatim>\<open>kern_return_t\<close> are
    words of 8 and 32 bits; arithmetic wraps, \<open>sint\<close> reads a word as a signed value.
  \<^item> A \<^verbatim>\<open>char *\<close> argument is the \<open>string\<close> of the characters before the terminating
    NUL, so that \<^verbatim>\<open>strlen\<close> is \<open>length\<close>. \<^verbatim>\<open>char\<close> is a signed 8-bit type on every
    platform that has IOKit: a character is promoted to \<^verbatim>\<open>int\<close> by sign extension
    (\<open>scast\<close>), and a left shift of a promoted character is the two's complement shift
    that the compilers of these platforms implement.
  \<^item> \<^verbatim>\<open>uint8_t[32]\<close> buffers are lists of 32 bytes; \<^verbatim>\<open>fan_name_t\<close> is a list of 13
    characters.
  \<^item> \<^verbatim>\<open>double\<close> values are the rationals they denote; every arithmetic operation
    rounds its exact result to binary64 (nearest, ties to even).
  \<^item> The static variable \<^verbatim>\<open>conn\<close> and the sequence of calls made to IOKit and to
    \<^verbatim>\<open>printf\<close> form the machine state, passed through every function. The IOKit
    functions themselves are not part of the sources: they are a parameter of the model,
    a record of functions that answer each call from the history of all calls so far.
  \<^item> \<^verbatim>\<open>sprintf\<close> stores the formatted text and its terminator from the start of the
    buffer \<^verbatim>\<open>char key[5]\<close> on, whatever the length of the text, and the call that follows
    reads the text up to that terminator. The key passed on is therefore the whole text,
    also when the text has more than four characters and its end lies past the five
    bytes of \<^verbatim>\<open>key\<close>: a write out of bounds, which the compiled program carries out.
\<close>

subsection \<open>Macros and global constants\<close>

definition IOSERVICE_SMC :: string where
  "IOSERVICE_SMC = ''AppleSMC''"

definition DATA_TYPE_UINT8 :: string where
  "DATA_TYPE_UINT8 = ''ui8 ''"

definition DATA_TYPE_UINT16 :: string where
  "DATA_TYPE_UINT16 = ''ui16''"

definition DATA_TYPE_UINT32 :: string where
  "DATA_TYPE_UINT32 = ''ui32''"

definition DATA_TYPE_FLAG :: string where
  "DATA_TYPE_FLAG = ''flag''"

definition DATA_TYPE_FPE2 :: string where
  "DATA_TYPE_FPE2 = ''fpe2''"

definition DATA_TYPE_SFDS :: string where
  "DATA_TYPE_SFDS = ''{fds''"

definition DATA_TYPE_SP78 :: string where
  "DATA_TYPE_SP78 = ''sp78''"

text \<open>Keys of smc.h used by the functions below.\<close>

definition NUM_FANS :: string where
  "NUM_FANS = ''FNum''"

definition BATT_PWR :: string where
  "BATT_PWR = ''BATP''"

definition ODD_FULL :: string where
  "ODD_FULL = ''MSDI''"

definition SMC_KEY_SIZE :: nat where
  "SMC_KEY_SIZE = 4"

subsection \<open>Return codes and selectors\<close>

type_synonym kern_return_t = "32 word"
type_synonym io_connect_t = "32 word"
type_synonym io_service_t = "32 word"

text \<open>
  Modelled from the spec: the IOKit return codes. \<^verbatim>\<open>IOKit/IOReturn.h\<close> and
  \<^verbatim>\<open>mach/error.h\<close> are not among the sources; the specification distinguishes success,
  a channel error and a type mismatch, which the code spells \<^verbatim>\<open>kIOReturnSuccess\<close>,
  \<^verbatim>\<open>kIOReturnError\<close> and \<^verbatim>\<open>kIOReturnBadArgument\<close>. They have the values of the IOKit
  headers; \<^verbatim>\<open>err_get_code\<close> keeps the low 14 bits of a Mach error value.
\<close>

definition kIOReturnSuccess :: kern_return_t where
  "kIOReturnSuccess = 0"

definition kIOReturnError :: kern_return_t where
  "kIOReturnError = 0xE00002BC"

definition kIOReturnBadArgument :: kern_return_t where
  "kIOReturnBadArgument = 0xE00002C2"

definition err_get_code :: "kern_return_t \<Rightarrow> kern_return_t" where
  "err_get_code err = err AND 0x3fff"

text \<open>\<^verbatim>\<open>kSMC_t\<close>: return codes of the SMC itself.\<close>

definition kSMCSuccess :: "32 word" where
  "kSMCSuccess = 0"

definition kSMCError :: "32 word" where
  "kSMCError = 1"

definition kSMCKeyNotFound :: "32 word" where
  "kSMCKeyNotFound = 0x84"

text \<open>\<^verbatim>\<open>selector_t\<close>: function selectors.\<close>

definition kSMCUserClientOpen :: "32 word" where
  "kSMCUserClientOpen = 0"

definition kSMCUserClientClose :: "32 word" where
  "kSMCUserClientClose = 1"

definition kSMCHandleYPCEvent :: "32 word" where
  "kSMCHandleYPCEvent = 2"

definition kSMCReadKey :: "32 word" where
  "kSMCReadKey = 5"

definition kSMCWriteKey :: "32 word" where
  "kSMCWriteKey = 6"

definition kSMCGetKeyCount :: "32 word" where
  "kSMCGetKeyCount = 7"

definition kSMCGetKeyFromIndex :: "32 word" where
  "kSMCGetKeyFromIndex = 8"

definition kSMCGetKeyInfo :: "32 word" where
  "kSMCGetKeyInfo = 9"

subsection \<open>Helpers: type conversion\<close>

definition from_fpe2 :: "8 word list \<Rightarrow> 32 word" where
  "from_fpe2 data =
    (let ans = 0;
         ans = ans + push_bit 6 (ucast (data ! 0));
         ans = ans + push_bit 2 (ucast (data ! 1))
     in ans)"

definition to_fpe2 :: "32 word \<Rightarrow> 8 word list \<Rightarrow> 8 word list" where
  "to_fpe2 val data =
    (let data = data[0 := ucast (drop_bit 6 val)];
         data = data[1 := ucast (push_bit 2 val XOR push_bit 8 (ucast (data ! 0)))]
     in data)"

text \<open>
  The loop of \<^verbatim>\<open>to_uint32_t\<close> runs over \<open>i = 0, 1, 2, 3\<close>; \<^verbatim>\<open>shift\<close> is a
  \<^verbatim>\<open>uint32_t\<close> and wraps after the last round. \<^verbatim>\<open>key[i] << shift\<close> is computed in
  \<^verbatim>\<open>int\<close>, from the sign-extended character.
\<close>

definition to_uint32_t :: "string \<Rightarrow> 32 word" where
  "to_uint32_t key =
    (let ans = 0; shift = 24 :: 32 word
     in if length key \<noteq> SMC_KEY_SIZE then 0
        else fst (fold (\<lambda>i (ans, shift).
                          (ans + push_bit (unat shift) (scast (of_char (key ! i) :: 8 word)),
                           shift - 8))
                       [0..<SMC_KEY_SIZE] (ans, shift)))"

subsection \<open>Helpers: temperature conversion\<close>

type_synonym double = rat

text \<open>The exponent \<open>e\<close> with \<open>2 powi e \<le> \<bar>x\<bar> < 2 powi (e + 1)\<close>, for \<open>x \<noteq> 0\<close>.\<close>

definition binade :: "rat \<Rightarrow> int" where
  "binade x =
    (let (p, q) = quotient_of \<bar>x\<bar>; d = bitlen p - bitlen q
     in if 2 powi d \<le> \<bar>x\<bar> then d else d - 1)"

definition round_half_even :: "rat \<Rightarrow> int" where
  "round_half_even x =
    (let f = \<lfloor>x\<rfloor>; r = x - of_int f
     in if r < 1 / 2 then f
        else if 1 / 2 < r then f + 1
        else if even f then f else f + 1)"

text \<open>
  Rounding to binary64: 53 significant bits, nearest, ties to even. The exponent range is
  not modelled; the values that arise below lie between 0 and 1024, far from overflow
  and from the subnormal numbers.
\<close>

definition round_to_double :: "rat \<Rightarrow> double" where
  "round_to_double x =
    (if x = 0 then 0
     else let u = 2 powi (binade x - 52) in of_int (round_half_even (x / u)) * u)"

definition dmul :: "double \<Rightarrow> double \<Rightarrow> double" where
  "dmul x y = round_to_double (x * y)"

definition dadd :: "double \<Rightarrow> double \<Rightarrow> double" where
  "dadd x y = round_to_double (x + y)"

definition to_fahrenheit :: "double \<Rightarrow> double" where
  "to_fahrenheit tmp = dadd (dmul tmp (round_to_double (18 / 10))) 32"

definition to_kelvin :: "double \<Rightarrow> double" where
  "to_kelvin tmp = dadd tmp (round_to_double (27315 / 100))"

subsection \<open>Structs\<close>

record SMCVersion =
  major :: "8 word"
  minor :: "8 word"
  build :: "8 word"
  reserved :: "8 word"
  release :: "16 word"

text \<open>The field \<^verbatim>\<open>length\<close> of \<^verbatim>\<open>SMCPLimitData\<close> is \<open>length_field\<close> here.\<close>

record SMCPLimitData =
  version :: "16 word"
  length_field :: "16 word"
  cpuPLimit :: "32 word"
  gpuPLimit :: "32 word"
  memPLimit :: "32 word"

text \<open>
  \<^verbatim>\<open>IOByteCount\<close> is declared by IOKit, not by the sources: an unsigned integer type of
  32 or of 64 bits. It is the type parameter \<open>'bc\<close> of the structs, instantiated with
  \<open>'w word\<close> in every function.
\<close>

record 'bc SMCKeyInfoData =
  dataSize :: "'bc"
  dataType :: "32 word"
  dataAttributes :: "8 word"

record 'bc SMCParamStruct =
  key :: "32 word"
  vers :: SMCVersion
  pLimitData :: SMCPLimitData
  keyInfo :: "'bc SMCKeyInfoData"
  result :: "8 word"
  status :: "8 word"
  data8 :: "8 word"
  data32 :: "32 word"
  bytes :: "8 word list"

record smc_return_t =
  data :: "8 word list"
  dataType :: "32 word"
  dataSize :: "32 word"
  kSMC :: "32 word"

datatype tmp_unit_t = CELSIUS | FAHRENHEIT | KELVIN

text \<open>\<^verbatim>\<open>memset(&s, 0, sizeof(SMCParamStruct))\<close> and \<^verbatim>\<open>memset(r, 0, sizeof(smc_return_t))\<close>.\<close>

definition zero_SMCParamStruct :: "('w::len) word SMCParamStruct" where
  "zero_SMCParamStruct =
    \<lparr>key = 0,
     vers = \<lparr>major = 0, minor = 0, build = 0, reserved = 0, release = 0\<rparr>,
     pLimitData = \<lparr>version = 0, length_field = 0, cpuPLimit = 0, gpuPLimit = 0,
                   memPLimit = 0\<rparr>,
     keyInfo = \<lparr>SMCKeyInfoData.dataSize = 0, SMCKeyInfoData.dataType = 0,
                dataAttributes = 0\<rparr>,
     result = 0, status = 0, data8 = 0, data32 = 0, bytes = replicate 32 0\<rparr>"

definition zero_smc_return_t :: smc_return_t where
  "zero_smc_return_t = \<lparr>data = replicate 32 0, dataType = 0, dataSize = 0, kSMC = 0\<rparr>"

subsection \<open>The machine: the connection and the calls made so far\<close>

datatype 'bc iokit_call =
    GetMatchingService string
  | ServiceOpen io_service_t
  | ObjectRelease io_service_t
  | ServiceClose io_connect_t
  | CallStructMethod io_connect_t "32 word" "'bc SMCParamStruct"
  | Printf string

text \<open>
  The answers of IOKit. Each function receives the calls made so far, the current one
  last. \<open>service_open\<close> returns the result code and the value left in \<^verbatim>\<open>conn\<close>;
  \<open>call_struct_method\<close> also receives the present content of the output struct and
  returns the result code and the content it leaves there.
\<close>

record 'bc iokit =
  matching_service :: "'bc iokit_call list \<Rightarrow> io_service_t"
  service_open :: "'bc iokit_call list \<Rightarrow> io_connect_t \<Rightarrow> kern_return_t \<times> io_connect_t"
  service_close :: "'bc iokit_call list \<Rightarrow> kern_return_t"
  call_struct_method ::
    "'bc iokit_call list \<Rightarrow> 'bc SMCParamStruct \<Rightarrow> kern_return_t \<times> 'bc SMCParamStruct"

record 'bc machine =
  conn :: io_connect_t
  trace :: "'bc iokit_call list"

definition printf :: "string \<Rightarrow> 'bc machine \<Rightarrow> 'bc machine" where
  "printf text m = m\<lparr>trace := trace m @ [Printf text]\<rparr>"

definition IOServiceGetMatchingService ::
  "'bc iokit \<Rightarrow> string \<Rightarrow> 'bc machine \<Rightarrow> io_service_t \<times> 'bc machine" where
  "IOServiceGetMatchingService io name m =
    (let tr = trace m @ [GetMatchingService name]
     in (matching_service io tr, m\<lparr>trace := tr\<rparr>))"

definition IOServiceOpen ::
  "'bc iokit \<Rightarrow> io_service_t \<Rightarrow> 'bc machine \<Rightarrow> kern_return_t \<times> 'bc machine" where
  "IOServiceOpen io service m =
    (let tr = trace m @ [ServiceOpen service];
         (r, c) = service_open io tr (conn m)
     in (r, m\<lparr>conn := c, trace := tr\<rparr>))"

definition IOObjectRelease :: "io_service_t \<Rightarrow> 'bc machine \<Rightarrow> 'bc machine" where
  "IOObjectRelease service m = m\<lparr>trace := trace m @ [ObjectRelease service]\<rparr>"

definition IOServiceClose ::
  "'bc iokit \<Rightarrow> io_connect_t \<Rightarrow> 'bc machine \<Rightarrow> kern_return_t \<times> 'bc machine" where
  "IOServiceClose io c m =
    (let tr = trace m @ [ServiceClose c]
     in (service_close io tr, m\<lparr>trace := tr\<rparr>))"

definition IOConnectCallStructMethod ::
  "'bc iokit \<Rightarrow> io_connect_t \<Rightarrow> 32 word \<Rightarrow> 'bc SMCParamStruct \<Rightarrow> 'bc SMCParamStruct \<Rightarrow>
   'bc machine \<Rightarrow> kern_return_t \<times> 'bc SMCParamStruct \<times> 'bc machine" where
  "IOConnectCallStructMethod io c selector inputStruct outputStruct m =
    (let tr = trace m @ [CallStructMethod c selector inputStruct];
         (r, out) = call_struct_method io tr outputStruct
     in (r, out, m\<lparr>trace := tr\<rparr>))"

subsection \<open>Private functions\<close>

definition call_smc ::
  "'bc iokit \<Rightarrow> 'bc SMCParamStruct \<Rightarrow> 'bc SMCParamStruct \<Rightarrow> 'bc machine \<Rightarrow>
   kern_return_t \<times> 'bc SMCParamStruct \<times> 'bc machine" where
  "call_smc io inputStruct outputStruct m =
    (let (result, outputStruct, m) =
           IOConnectCallStructMethod io (conn m) kSMCHandleYPCEvent inputStruct outputStruct m;
         result = (if result \<noteq> kIOReturnSuccess then err_get_code result else result)
     in (result, outputStruct, m))"

text \<open>
  \<^verbatim>\<open>read_smc(key, result_smc)\<close> clears \<^verbatim>\<open>*result_smc\<close> first, so the model returns the
  struct instead of taking it.
\<close>

definition read_smc ::
  "('w::len) word iokit \<Rightarrow> string \<Rightarrow> 'w word machine \<Rightarrow>
   kern_return_t \<times> smc_return_t \<times> 'w word machine" where
  "read_smc io skey m =
    (let inputStruct = zero_SMCParamStruct;
         outputStruct = zero_SMCParamStruct;
         result_smc = zero_smc_return_t;
         inputStruct = inputStruct\<lparr>key := to_uint32_t skey, data8 := ucast kSMCGetKeyInfo\<rparr>;
         (result, outputStruct, m) = call_smc io inputStruct outputStruct m;
         result_smc = result_smc\<lparr>kSMC := ucast (SMCParamStruct.result outputStruct)\<rparr>
     in if result \<noteq> kIOReturnSuccess \<or>
           ucast (SMCParamStruct.result outputStruct) \<noteq> kSMCSuccess
        then (result, result_smc, m)
        else
          let result_smc = result_smc
                 \<lparr>dataSize := ucast (SMCKeyInfoData.dataSize (keyInfo outputStruct)),
                  dataType := SMCKeyInfoData.dataType (keyInfo outputStruct)\<rparr>;
              inputStruct = inputStruct
                 \<lparr>keyInfo := (keyInfo inputStruct)
                    \<lparr>SMCKeyInfoData.dataSize :=
                       SMCKeyInfoData.dataSize (keyInfo outputStruct)\<rparr>,
                  data8 := ucast kSMCReadKey\<rparr>;
              (result, outputStruct, m) = call_smc io inputStruct outputStruct m;
              result_smc = result_smc\<lparr>kSMC := ucast (SMCParamStruct.result outputStruct)\<rparr>
          in if result \<noteq> kIOReturnSuccess \<or>
                ucast (SMCParamStruct.result outputStruct) \<noteq> kSMCSuccess
             then (result, result_smc, m)
             else (result, result_smc\<lparr>data := bytes outputStruct\<rparr>, m))"

text \<open>
  \<^verbatim>\<open>write_smc(key, result_smc)\<close> reads the declared size, type and payload from
  \<^verbatim>\<open>*result_smc\<close> and stores the SMC's return code there. The declared size is a
  \<^verbatim>\<open>uint32_t\<close>, the size of the key info an \<^verbatim>\<open>IOByteCount\<close>: C compares their values.
\<close>

definition write_smc ::
  "('w::len) word iokit \<Rightarrow> string \<Rightarrow> smc_return_t \<Rightarrow> 'w word machine \<Rightarrow>
   kern_return_t \<times> smc_return_t \<times> 'w word machine" where
  "write_smc io skey result_smc m =
    (let inputStruct = zero_SMCParamStruct;
         outputStruct = zero_SMCParamStruct;
         inputStruct = inputStruct\<lparr>key := to_uint32_t skey, data8 := ucast kSMCGetKeyInfo\<rparr>;
         (result, outputStruct, m) = call_smc io inputStruct outputStruct m;
         result_smc = result_smc\<lparr>kSMC := ucast (SMCParamStruct.result outputStruct)\<rparr>
     in if result \<noteq> kIOReturnSuccess \<or>
           ucast (SMCParamStruct.result outputStruct) \<noteq> kSMCSuccess
        then (result, result_smc, m)
        else if unat (dataSize result_smc) \<noteq>
                  unat (SMCKeyInfoData.dataSize (keyInfo outputStruct)) \<or>
                dataType result_smc \<noteq> SMCKeyInfoData.dataType (keyInfo outputStruct)
        then (kIOReturnBadArgument, result_smc, m)
        else
          let inputStruct = inputStruct
                 \<lparr>data8 := ucast kSMCWriteKey,
                  keyInfo := (keyInfo inputStruct)
                    \<lparr>SMCKeyInfoData.dataSize :=
                       SMCKeyInfoData.dataSize (keyInfo outputStruct)\<rparr>\<rparr>;
              inputStruct = inputStruct\<lparr>bytes := data result_smc\<rparr>;
              (result, outputStruct, m) = call_smc io inputStruct outputStruct m;
              result_smc = result_smc\<lparr>kSMC := ucast (SMCParamStruct.result outputStruct)\<rparr>
          in (result, result_smc, m))"

subsection \<open>Public functions\<close>

definition open_smc :: "'bc iokit \<Rightarrow> 'bc machine \<Rightarrow> kern_return_t \<times> 'bc machine" where
  "open_smc io m =
    (let (service, m) = IOServiceGetMatchingService io IOSERVICE_SMC m
     in if service = 0
        then (kIOReturnError,
              printf (''ERROR: '' @ IOSERVICE_SMC @ '' NOT FOUND'' @ [CHR 0x0A]) m)
        else
          let (result, m) = IOServiceOpen io service m;
              m = IOObjectRelease service m
          in (result, m))"

definition close_smc :: "'bc iokit \<Rightarrow> 'bc machine \<Rightarrow> kern_return_t \<times> 'bc machine" where
  "close_smc io m = IOServiceClose io (conn m) m"

definition is_key_valid ::
  "('w::len) word iokit \<Rightarrow> string \<Rightarrow> 'w word machine \<Rightarrow> bool \<times> 'w word machine" where
  "is_key_valid io skey m =
    (let ans = False
     in if length skey \<noteq> SMC_KEY_SIZE
        then (ans, printf (''ERROR: Invalid key size - must be 4 chars'' @ [CHR 0x0A]) m)
        else
          let (result, result_smc, m) = read_smc io skey m;
              ans = (if result = kIOReturnSuccess \<and> kSMC result_smc = kSMCSuccess
                     then True else ans)
          in (ans, m))"

definition get_tmp ::
  "('w::len) word iokit \<Rightarrow> string \<Rightarrow> tmp_unit_t \<Rightarrow> 'w word machine \<Rightarrow>
   double \<times> 'w word machine" where
  "get_tmp io skey unit m =
    (let (result, result_smc, m) = read_smc io skey m
     in if \<not> (result = kIOReturnSuccess \<and>
               dataSize result_smc = 2 \<and>
               dataType result_smc = to_uint32_t DATA_TYPE_SP78)
        then (0, m)
        else
          let tmp = of_nat (unat (data result_smc ! 0));
              tmp = (case unit of
                       CELSIUS \<Rightarrow> tmp
                     | FAHRENHEIT \<Rightarrow> to_fahrenheit tmp
                     | KELVIN \<Rightarrow> to_kelvin tmp)
          in (tmp, m))"

definition is_battery_powered ::
  "('w::len) word iokit \<Rightarrow> 'w word machine \<Rightarrow> bool \<times> 'w word machine" where
  "is_battery_powered io m =
    (let (result, result_smc, m) = read_smc io BATT_PWR m
     in if \<not> (result = kIOReturnSuccess \<and>
               dataSize result_smc = 1 \<and>
               dataType result_smc = to_uint32_t DATA_TYPE_FLAG)
        then (False, m)
        else (data result_smc ! 0 \<noteq> 0, m))"

definition is_optical_disk_drive_full ::
  "('w::len) word iokit \<Rightarrow> 'w word machine \<Rightarrow> bool \<times> 'w word machine" where
  "is_optical_disk_drive_full io m =
    (let (result, result_smc, m) = read_smc io ODD_FULL m
     in if \<not> (result = kIOReturnSuccess \<and>
               dataSize result_smc = 1 \<and>
               dataType result_smc = to_uint32_t DATA_TYPE_FLAG)
        then (False, m)
        else (data result_smc ! 0 \<noteq> 0, m))"

subsection \<open>Fan functions\<close>

text \<open>
  \<^verbatim>\<open>sprintf(key, "F%dID", fan_num)\<close>: \<^verbatim>\<open>%d\<close> prints its argument, the
  \<^verbatim>\<open>unsigned int fan_num\<close>, as a signed decimal number.
\<close>

function decimal :: "nat \<Rightarrow> string" where
  "decimal n =
    (if n < 10 then [char_of (48 + n)]
     else decimal (n div 10) @ [char_of (48 + n mod 10)])"
  by pat_completeness auto
termination
  by (relation "measure (\<lambda>n. n)") auto

declare decimal.simps [simp del]

definition printf_d :: "32 word \<Rightarrow> string" where
  "printf_d n =
    (if sint n < 0 then CHR ''-'' # decimal (nat (- sint n))
     else decimal (nat (sint n)))"

text \<open>
  The text that \<^verbatim>\<open>sprintf\<close> formats for the template \<^verbatim>\<open>F%d\<close> followed by a suffix and
  stores in \<^verbatim>\<open>key\<close>; the fan functions pass it to \<^verbatim>\<open>read_smc\<close> and \<^verbatim>\<open>write_smc\<close>.
\<close>

definition fan_key_text :: "string \<Rightarrow> 32 word \<Rightarrow> string" where
  "fan_key_text suffix fan_num = ''F'' @ printf_d fan_num @ suffix"

text \<open>
  The loop of \<^verbatim>\<open>get_fan_name\<close>, from the index \<open>i\<close> on: it copies payload bytes into
  \<^verbatim>\<open>name\<close> until it meets a space or reaches index 16.
\<close>

function get_fan_name_loop ::
  "8 word list \<Rightarrow> nat \<Rightarrow> string \<times> nat \<Rightarrow> string \<times> nat" where
  "get_fan_name_loop dat i (name, index) =
    (if i < 16
     then if dat ! i = 32 then (name, index)
          else get_fan_name_loop dat (i + 1)
                 (name[index := char_of (unat (dat ! i))], index + 1)
     else (name, index))"
  by pat_completeness auto
termination
  by (relation "measure (\<lambda>(dat, i, st). 16 - i)") auto

declare get_fan_name_loop.simps [simp del]

text \<open>
  \<^verbatim>\<open>get_fan_name(fan_num, name)\<close> writes into the caller's 13-character buffer
  \<^verbatim>\<open>name\<close>; the model takes the buffer and returns it with the result.
\<close>

definition get_fan_name ::
  "('w::len) word iokit \<Rightarrow> 32 word \<Rightarrow> string \<Rightarrow> 'w word machine \<Rightarrow>
   bool \<times> string \<times> 'w word machine" where
  "get_fan_name io fan_num name m =
    (let skey = fan_key_text ''ID'' fan_num;
         (result, result_smc, m) = read_smc io skey m
     in if \<not> (result = kIOReturnSuccess \<and>
               dataSize result_smc = 16 \<and>
               dataType result_smc = to_uint32_t DATA_TYPE_SFDS)
        then (False, name, m)
        else
          let (name, index) = get_fan_name_loop (data result_smc) 4 (name, 0)
          in (True, name, m))"

definition get_num_fans ::
  "('w::len) word iokit \<Rightarrow> 'w word machine \<Rightarrow> 32 word \<times> 'w word machine" where
  "get_num_fans io m =
    (let (result, result_smc, m) = read_smc io NUM_FANS m
     in if \<not> (result = kIOReturnSuccess \<and>
               dataSize result_smc = 1 \<and>
               dataType result_smc = to_uint32_t DATA_TYPE_UINT8)
        then (- 1, m)
        else (ucast (data result_smc ! 0), m))"

definition get_fan_rpm ::
  "('w::len) word iokit \<Rightarrow> 32 word \<Rightarrow> 'w word machine \<Rightarrow> 32 word \<times> 'w word machine" where
  "get_fan_rpm io fan_num m =
    (let skey = fan_key_text ''Ac'' fan_num;
         (result, result_smc, m) = read_smc io skey m
     in if \<not> (result = kIOReturnSuccess \<and>
               dataSize result_smc = 2 \<and>
               dataType result_smc = to_uint32_t DATA_TYPE_FPE2)
        then (0, m)
        else (from_fpe2 (data result_smc), m))"

definition set_fan_min_rpm ::
  "('w::len) word iokit \<Rightarrow> 32 word \<Rightarrow> 32 word \<Rightarrow> bool \<Rightarrow> 'w word machine \<Rightarrow>
   bool \<times> 'w word machine" where
  "set_fan_min_rpm io fan_num rpm auth m =
    (let ans = False;
         result_smc = zero_smc_return_t;
         result_smc = result_smc\<lparr>dataSize := 2\<rparr>;
         result_smc = result_smc\<lparr>dataType := to_uint32_t DATA_TYPE_FPE2\<rparr>;
         result_smc = result_smc\<lparr>data := to_fpe2 rpm (data result_smc)\<rparr>;
         skey = fan_key_text ''Mn'' fan_num;
         (result, result_smc, m) = write_smc io skey result_smc m;
         ans = (if result = kIOReturnSuccess \<and> kSMC result_smc = kSMCSuccess
                then True else ans)
     in (ans, m))"

subsection \<open>Notions used in the statements\<close>

text \<open>Big-endian packing of four bytes, the first in the most significant byte.\<close>

definition pack_be :: "8 word \<Rightarrow> 8 word \<Rightarrow> 8 word \<Rightarrow> 8 word \<Rightarrow> 32 word" where
  "pack_be a b c d =
     push_bit 24 (ucast a) OR push_bit 16 (ucast b) OR push_bit 8 (ucast c) OR ucast d"

text \<open>
  A transaction is one call of \<^verbatim>\<open>IOConnectCallStructMethod\<close> on a connection with the
  selector \<^verbatim>\<open>kSMCHandleYPCEvent\<close>. \<open>key_info_request\<close> is the request struct that
  \<^verbatim>\<open>read_smc\<close> and \<^verbatim>\<open>write_smc\<close> send first.
\<close>

definition transaction :: "io_connect_t \<Rightarrow> 'bc SMCParamStruct \<Rightarrow> 'bc iokit_call" where
  "transaction c inputStruct = CallStructMethod c kSMCHandleYPCEvent inputStruct"

definition key_info_request :: "string \<Rightarrow> ('w::len) word SMCParamStruct" where
  "key_info_request skey =
     zero_SMCParamStruct\<lparr>key := to_uint32_t skey, data8 := ucast kSMCGetKeyInfo\<rparr>"


text \<open>
  \<^verbatim>\<open>char key[5]\<close> has room for a text of four characters and its terminator; a longer
  text does not fit.
\<close>

definition key_overflow :: "string \<Rightarrow> bool" where
  "key_overflow text = (5 < length text + 1)"

text \<open>
  A test double for IOKit. The service is found and opens with the connection 7. A
  key-info request is answered with the result code \<open>r1\<close>, the SMC status \<open>s1\<close>, the
  size \<open>sz\<close> and the type \<open>ty\<close>; every other request with the result code \<open>r2\<close>,
  the SMC status \<open>s2\<close> and the payload.
\<close>

definition stub_iokit ::
  "kern_return_t \<Rightarrow> 8 word \<Rightarrow> ('w::len) word \<Rightarrow> string \<Rightarrow> kern_return_t \<Rightarrow> 8 word \<Rightarrow>
   8 word list \<Rightarrow> 'w word iokit" where
  "stub_iokit r1 s1 sz ty r2 s2 payload =
    \<lparr>matching_service = (\<lambda>tr. 1),
     service_open = (\<lambda>tr c. (kIOReturnSuccess, 7)),
     service_close = (\<lambda>tr. kIOReturnSuccess),
     call_struct_method = (\<lambda>tr out.
        case last tr of
          CallStructMethod c selector inputStruct \<Rightarrow>
            if data8 inputStruct = ucast kSMCGetKeyInfo
            then (r1, out\<lparr>keyInfo := \<lparr>SMCKeyInfoData.dataSize = sz,
                                        SMCKeyInfoData.dataType = to_uint32_t ty,
                                        dataAttributes = 0\<rparr>,
                          result := s1\<rparr>)
            else (r2, out\<lparr>bytes := payload, result := s2\<rparr>)
        | _ \<Rightarrow> (kIOReturnError, out))\<rparr>"

text \<open>The machine before any call, on a 64-bit platform.\<close>

definition initial_machine :: "64 word machine" where
  "initial_machine = \<lparr>conn = 0, trace = []\<rparr>"

section \<open>Key encoding\<close>

lemma upt_4: "[0..<4] = [0, 1, 2, 3]"
  by (simp add: upt_rec)

lemma length4_cases:
  assumes "length (xs :: 'a list) = 4"
  obtains a b c d where "xs = [a, b, c, d]"
proof -
  from assms obtain a b c d where "xs = [a, b, c, d]"
    by (auto simp add: length_Suc_conv numeral_eq_Suc)
  then show thesis by (rule that)
qed

lemma to_uint32_t_quad:
  "to_uint32_t [a, b, c, d] =
     push_bit 24 (scast (of_char a :: 8 word)) + push_bit 16 (scast (of_char b :: 8 word)) +
     push_bit 8 (scast (of_char c :: 8 word)) + scast (of_char d :: 8 word)"
  by (simp add: to_uint32_t_def SMC_KEY_SIZE_def upt_4)

lemma to_uint32_t_wrong_length: "length skey \<noteq> 4 \<Longrightarrow> to_uint32_t skey = 0"
  by (simp add: to_uint32_t_def SMC_KEY_SIZE_def)

text \<open>A byte below \<open>0x80\<close> has its sign bit clear, so sign extension adds nothing.\<close>

lemma not_bit7:
  fixes c :: "8 word"
  assumes "c < 0x80"
  shows "\<not> bit c 7"
proof -
  from assms have "unat c < 128" by (simp add: word_less_nat_alt)
  then have "unat c div 2 ^ 7 = 0" by simp
  then have "\<not> bit (unat c) 7" unfolding bit_iff_odd by simp
  then show ?thesis by (simp add: bit_unsigned_iff)
qed

lemma scast_ascii:
  fixes c :: "8 word"
  assumes "c < 0x80"
  shows "(scast c :: 32 word) = ucast c"
  using not_bit7 [OF assms]
  by (auto simp add: bit_eq_iff bit_word_scast_iff bit_word_ucast_iff dest: bit_imp_le_length)

text \<open>The four shifted bytes occupy disjoint bits: their sum is their bitwise or.\<close>

lemma pack_add_eq_or:
  fixes a b c d :: "8 word"
  shows "push_bit 24 (ucast a) + push_bit 16 (ucast b) + push_bit 8 (ucast c) +
           (ucast d :: 32 word) = pack_be a b c d"
proof -
  have 1: "push_bit 24 (ucast a) + push_bit 16 (ucast b)
         = push_bit 24 (ucast a) OR (push_bit 16 (ucast b) :: 32 word)"
    by (rule disjunctive_add_eq_or)
      (auto simp add: bit_eq_iff bit_simps dest: bit_imp_le_length)
  have 2: "(push_bit 24 (ucast a) OR push_bit 16 (ucast b)) + push_bit 8 (ucast c)
         = (push_bit 24 (ucast a) OR push_bit 16 (ucast b)) OR
           (push_bit 8 (ucast c) :: 32 word)"
    by (rule disjunctive_add_eq_or)
      (auto simp add: bit_eq_iff bit_simps dest: bit_imp_le_length)
  have 3: "((push_bit 24 (ucast a) OR push_bit 16 (ucast b)) OR push_bit 8 (ucast c)) + ucast d
         = ((push_bit 24 (ucast a) OR push_bit 16 (ucast b)) OR push_bit 8 (ucast c)) OR
           (ucast d :: 32 word)"
    by (rule disjunctive_add_eq_or)
      (auto simp add: bit_eq_iff bit_simps dest: bit_imp_le_length)
  show ?thesis unfolding 1 2 3 by (simp only: pack_be_def or.assoc)
qed

lemma unpack_be:
  "ucast (drop_bit 24 (pack_be a b c d)) = a"
  "ucast (drop_bit 16 (pack_be a b c d)) = b"
  "ucast (drop_bit 8 (pack_be a b c d)) = c"
  "ucast (pack_be a b c d) = d"
  unfolding pack_be_def by (auto simp add: bit_eq_iff bit_simps dest: bit_imp_le_length)

lemma pack_be_nonzero: "d \<noteq> 0 \<Longrightarrow> pack_be a b c d \<noteq> 0"
  using unpack_be(4) [of a b c d] by auto

lemma unat_of_char: "unat (of_char c :: 8 word) = of_char c"
proof -
  have "(of_char c :: 8 word) = of_nat (of_char c)" by (simp only: of_nat_of_char)
  then have "unat (of_char c :: 8 word) = (of_char c :: nat) mod 256"
    by (simp add: unat_of_nat)
  then show ?thesis by simp
qed

lemma of_char_word_ascii: "(of_char c :: nat) < 128 \<Longrightarrow> of_char c < (0x80 :: 8 word)"
  by (simp add: word_less_nat_alt unat_of_char)

lemma of_char_word_nonzero:
  assumes "c \<noteq> CHR 0x00"
  shows "(of_char c :: 8 word) \<noteq> 0"
proof
  assume "(of_char c :: 8 word) = 0"
  then have "unat (of_char c :: 8 word) = 0" by simp
  then have "(of_char c :: nat) = of_char (CHR 0x00)" by (simp add: unat_of_char)
  then have "c = CHR 0x00" by (simp only: of_char_eq_iff)
  with assms show False by simp
qed

lemma to_uint32_t_ascii:
  assumes "(of_char a :: nat) < 128" "(of_char b :: nat) < 128"
    "(of_char c :: nat) < 128" "(of_char d :: nat) < 128"
  shows "to_uint32_t [a, b, c, d] = pack_be (of_char a) (of_char b) (of_char c) (of_char d)"
  using assms
  by (simp add: to_uint32_t_quad scast_ascii of_char_word_ascii pack_add_eq_or)

text \<open>
  What \<^verbatim>\<open>to_uint32_t\<close> computes. For every string whose length is not 4 it returns 0.
  For every string of four ASCII characters (each below 128) it packs the characters
  big-endian: the result is \<open>pack_be\<close> of the four characters, so the byte at position
  \<open>3 - i\<close>, counted from the least significant one, is the character \<open>i\<close> and the
  first character is in the most significant byte; and since the last character of a C
  string is not NUL, the result is not 0.
\<close>

lemma to_uint32_t_key_encoding:
  "(length skey \<noteq> 4 \<longrightarrow> to_uint32_t skey = 0) \<and>
   (length skey = 4 \<and> (\<forall>c \<in> set skey. of_char c < (128 :: nat)) \<longrightarrow>
      to_uint32_t skey =
        pack_be (of_char (skey ! 0)) (of_char (skey ! 1))
                (of_char (skey ! 2)) (of_char (skey ! 3)) \<and>
      (\<forall>i < 4. ucast (drop_bit (8 * (3 - i)) (to_uint32_t skey)) =
                 (of_char (skey ! i) :: 8 word)) \<and>
      (skey ! 3 \<noteq> CHR 0x00 \<longrightarrow> to_uint32_t skey \<noteq> 0))"
proof (intro conjI impI)
  assume "length skey \<noteq> 4"
  then show "to_uint32_t skey = 0" by (rule to_uint32_t_wrong_length)
next
  assume h: "length skey = 4 \<and> (\<forall>c \<in> set skey. of_char c < (128 :: nat))"
  then obtain a b c d where k: "skey = [a, b, c, d]" by (auto elim: length4_cases)
  with h have asc: "(of_char a :: nat) < 128" "(of_char b :: nat) < 128"
    "(of_char c :: nat) < 128" "(of_char d :: nat) < 128"
    by simp_all
  show p: "to_uint32_t skey =
        pack_be (of_char (skey ! 0)) (of_char (skey ! 1))
                (of_char (skey ! 2)) (of_char (skey ! 3))"
    using asc by (simp add: k to_uint32_t_ascii)
  show "\<forall>i < 4. ucast (drop_bit (8 * (3 - i)) (to_uint32_t skey)) =
                  (of_char (skey ! i) :: 8 word)"
  proof (intro allI impI)
    fix i :: nat
    assume "i < 4"
    then consider "i = 0" | "i = 1" | "i = 2" | "i = 3" by linarith
    then show "ucast (drop_bit (8 * (3 - i)) (to_uint32_t skey)) =
                 (of_char (skey ! i) :: 8 word)"
      by cases (simp_all add: p unpack_be)
  qed
  show "to_uint32_t skey \<noteq> 0" if "skey ! 3 \<noteq> CHR 0x00"
    unfolding p using that by (intro pack_be_nonzero of_char_word_nonzero)
qed

text \<open>
  Claim C4 fails on the code: a string of four characters is not always packed
  big-endian. \<^verbatim>\<open>key[i] << shift\<close> promotes the \<^verbatim>\<open>char\<close> to \<^verbatim>\<open>int\<close> with its sign. The
  second character of \<^verbatim>\<open>"A\xffBC"\<close> is the \<^verbatim>\<open>char\<close> \<open>-1\<close>; shifted left by 16 it is
  \<^verbatim>\<open>0xFFFF0000\<close>, and the addition carries into the byte of the first character.
  \<^verbatim>\<open>to_uint32_t\<close> returns \<^verbatim>\<open>0x40FF4243\<close>, whose most significant byte is \<^verbatim>\<open>0x40\<close> and not
  \<^verbatim>\<open>'A'\<close> (\<^verbatim>\<open>0x41\<close>); the big-endian packing of the four characters is \<^verbatim>\<open>0x41FF4243\<close>.
\<close>

theorem to_uint32_t_sign_extension:
  "length [CHR ''A'', CHR 0xFF, CHR ''B'', CHR ''C''] = 4 \<and>
   to_uint32_t [CHR ''A'', CHR 0xFF, CHR ''B'', CHR ''C''] = 0x40FF4243 \<and>
   pack_be (of_char (CHR ''A'')) (of_char (CHR 0xFF)) (of_char (CHR ''B''))
     (of_char (CHR ''C'')) = 0x41FF4243 \<and>
   (ucast (drop_bit 24 (to_uint32_t [CHR ''A'', CHR 0xFF, CHR ''B'', CHR ''C''])) :: 8 word) \<noteq>
     of_char (CHR ''A'')"
  by code_simp

section \<open>The transaction engine\<close>

lemma call_smc_machine:
  assumes "call_smc io inputStruct outputStruct m = (r, out, m')"
  shows "m' = m\<lparr>trace := trace m @ [transaction (conn m) inputStruct]\<rparr>"
  using assms
  by (auto simp add: call_smc_def IOConnectCallStructMethod_def transaction_def Let_def
      split: prod.splits)

lemma read_smc_phase1_fails:
  assumes "call_smc io (key_info_request skey) zero_SMCParamStruct m = (r, out, m')"
    and "r \<noteq> kIOReturnSuccess \<or> ucast (SMCParamStruct.result out) \<noteq> kSMCSuccess"
  shows "read_smc io skey m =
           (r, zero_smc_return_t\<lparr>kSMC := ucast (SMCParamStruct.result out)\<rparr>, m')"
  using assms by (auto simp add: read_smc_def key_info_request_def Let_def)

text \<open>
  Claim C3. Let the first call of \<^verbatim>\<open>read_smc\<close>, the key-info request, come back from
  \<^verbatim>\<open>call_smc\<close> with a result code other than \<^verbatim>\<open>kIOReturnSuccess\<close> or with an SMC
  status other than \<^verbatim>\<open>kSMCSuccess\<close> (such as \<^verbatim>\<open>kSMCKeyNotFound\<close>). Then \<^verbatim>\<open>read_smc\<close>
  returns that result code and reports that SMC status in \<^verbatim>\<open>kSMC\<close>, so that one of the
  two signals the error; it returns no payload, size or type; and the key-info request
  is the only transaction it has issued: no read request follows.
\<close>

theorem read_smc_metadata_failure:
  fixes io :: "('w::len) word iokit"
  assumes "call_smc io (key_info_request skey) zero_SMCParamStruct m = (r, out, m')"
    and "r \<noteq> kIOReturnSuccess \<or> ucast (SMCParamStruct.result out) \<noteq> kSMCSuccess"
  shows "\<exists>result_smc.
           read_smc io skey m = (r, result_smc, m') \<and>
           (r \<noteq> kIOReturnSuccess \<or> kSMC result_smc \<noteq> kSMCSuccess) \<and>
           kSMC result_smc = ucast (SMCParamStruct.result out) \<and>
           data result_smc = replicate 32 0 \<and>
           dataSize result_smc = 0 \<and> dataType result_smc = 0 \<and>
           trace m' = trace m @ [transaction (conn m) (key_info_request skey)] \<and>
           data8 (key_info_request skey :: 'w word SMCParamStruct) = ucast kSMCGetKeyInfo \<and>
           (ucast kSMCGetKeyInfo :: 8 word) \<noteq> ucast kSMCReadKey"
proof -
  have 1: "read_smc io skey m =
      (r, zero_smc_return_t\<lparr>kSMC := ucast (SMCParamStruct.result out)\<rparr>, m')"
    using assms by (rule read_smc_phase1_fails)
  have 2: "trace m' = trace m @ [transaction (conn m) (key_info_request skey)]"
    using call_smc_machine [OF assms(1)] by simp
  have 3: "data8 (key_info_request skey :: 'w word SMCParamStruct) = ucast kSMCGetKeyInfo"
    by (simp add: key_info_request_def)
  have 4: "(ucast kSMCGetKeyInfo :: 8 word) \<noteq> ucast kSMCReadKey"
    by (simp add: kSMCGetKeyInfo_def kSMCReadKey_def)
  from assms(2) show ?thesis
    unfolding 1 using 2 3 4 by (auto simp add: zero_smc_return_t_def)
qed

text \<open>
  The theorem at a channel that answers the key-info request with the status
  \<^verbatim>\<open>kSMCKeyNotFound\<close>: the status is reported and one transaction was issued.
\<close>

theorem read_smc_metadata_failure_witness:
  "fst (read_smc (stub_iokit kIOReturnSuccess 0x84 0 [] kIOReturnSuccess 0 (replicate 32 0))
          ''TC0D'' initial_machine) = kIOReturnSuccess \<and>
   kSMC (fst (snd (read_smc
          (stub_iokit kIOReturnSuccess 0x84 0 [] kIOReturnSuccess 0 (replicate 32 0))
          ''TC0D'' initial_machine))) = kSMCKeyNotFound \<and>
   length (trace (snd (snd (read_smc
          (stub_iokit kIOReturnSuccess 0x84 0 [] kIOReturnSuccess 0 (replicate 32 0))
          ''TC0D'' initial_machine)))) = 1"
proof -
  let ?io = "stub_iokit kIOReturnSuccess 0x84 0 [] kIOReturnSuccess 0 (replicate 32 0)
               :: 64 word iokit"
  let ?c = "call_smc ?io (key_info_request ''TC0D'') zero_SMCParamStruct initial_machine"
  have h1: "?c = (fst ?c, fst (snd ?c), snd (snd ?c))" by simp
  have h2: "fst ?c \<noteq> kIOReturnSuccess \<or>
            ucast (SMCParamStruct.result (fst (snd ?c))) \<noteq> kSMCSuccess"
    by code_simp
  have e1: "fst ?c = kIOReturnSuccess" by code_simp
  have e2: "(ucast (SMCParamStruct.result (fst (snd ?c))) :: 32 word) = kSMCKeyNotFound"
    by code_simp
  have e3: "trace initial_machine = []" by (simp add: initial_machine_def)
  from read_smc_metadata_failure [OF h1 h2] show ?thesis
    by (auto simp add: e1 e2 e3)
qed

lemma write_smc_mismatch:
  assumes "call_smc io (key_info_request skey) zero_SMCParamStruct m = (r, out, m')"
    and "r = kIOReturnSuccess" and "ucast (SMCParamStruct.result out) = kSMCSuccess"
    and "unat (dataSize result_smc) \<noteq> unat (SMCKeyInfoData.dataSize (keyInfo out)) \<or>
         dataType result_smc \<noteq> SMCKeyInfoData.dataType (keyInfo out)"
  shows "write_smc io skey result_smc m =
           (kIOReturnBadArgument, result_smc\<lparr>kSMC := ucast (SMCParamStruct.result out)\<rparr>, m')"
  using assms by (auto simp add: write_smc_def key_info_request_def Let_def)

text \<open>
  Claim C2. Let the key-info request of \<^verbatim>\<open>write_smc\<close> succeed (\<^verbatim>\<open>call_smc\<close> returns
  \<^verbatim>\<open>kIOReturnSuccess\<close> and the SMC status is \<^verbatim>\<open>kSMCSuccess\<close>), and let the size or the
  type the channel returned differ from the size or the type the caller declared in
  \<^verbatim>\<open>result_smc\<close>. Then \<^verbatim>\<open>write_smc\<close> returns \<^verbatim>\<open>kIOReturnBadArgument\<close>, which is
  not the success code, and the key-info request is the only transaction it has
  issued: no write request reaches the channel.
\<close>

theorem write_smc_type_mismatch:
  fixes io :: "('w::len) word iokit"
  assumes "call_smc io (key_info_request skey) zero_SMCParamStruct m =
             (kIOReturnSuccess, out, m')"
    and "ucast (SMCParamStruct.result out) = kSMCSuccess"
    and "unat (dataSize result_smc) \<noteq> unat (SMCKeyInfoData.dataSize (keyInfo out)) \<or>
         dataType result_smc \<noteq> SMCKeyInfoData.dataType (keyInfo out)"
  shows "fst (write_smc io skey result_smc m) = kIOReturnBadArgument \<and>
         kIOReturnBadArgument \<noteq> kIOReturnSuccess \<and>
         snd (snd (write_smc io skey result_smc m)) = m' \<and>
         trace m' = trace m @ [transaction (conn m) (key_info_request skey)] \<and>
         data8 (key_info_request skey :: 'w word SMCParamStruct) = ucast kSMCGetKeyInfo \<and>
         (ucast kSMCGetKeyInfo :: 8 word) \<noteq> ucast kSMCWriteKey"
proof -
  have 1: "write_smc io skey result_smc m =
      (kIOReturnBadArgument, result_smc\<lparr>kSMC := ucast (SMCParamStruct.result out)\<rparr>, m')"
    using assms(1) refl assms(2,3) by (rule write_smc_mismatch)
  have 2: "trace m' = trace m @ [transaction (conn m) (key_info_request skey)]"
    using call_smc_machine [OF assms(1)] by simp
  have 3: "data8 (key_info_request skey :: 'w word SMCParamStruct) = ucast kSMCGetKeyInfo"
    by (simp add: key_info_request_def)
  have 4: "(ucast kSMCGetKeyInfo :: 8 word) \<noteq> ucast kSMCWriteKey"
    by (simp add: kSMCGetKeyInfo_def kSMCWriteKey_def)
  have 5: "kIOReturnBadArgument \<noteq> kIOReturnSuccess"
    by (simp add: kIOReturnBadArgument_def kIOReturnSuccess_def)
  show ?thesis unfolding 1 using 2 3 4 5 by simp
qed

text \<open>
  The theorem at a channel that reports size 2 and type \<^verbatim>\<open>flag\<close>, for a caller that
  declares size 1 and type \<^verbatim>\<open>flag\<close>.
\<close>

theorem write_smc_type_mismatch_witness:
  "fst (write_smc (stub_iokit kIOReturnSuccess 0 2 ''flag'' kIOReturnSuccess 0 (replicate 32 0))
          ''MSDI'' (zero_smc_return_t\<lparr>dataSize := 1, dataType := to_uint32_t DATA_TYPE_FLAG\<rparr>)
          initial_machine) = kIOReturnBadArgument \<and>
   length (trace (snd (snd (write_smc
          (stub_iokit kIOReturnSuccess 0 2 ''flag'' kIOReturnSuccess 0 (replicate 32 0))
          ''MSDI'' (zero_smc_return_t\<lparr>dataSize := 1, dataType := to_uint32_t DATA_TYPE_FLAG\<rparr>)
          initial_machine)))) = 1"
proof -
  let ?io = "stub_iokit kIOReturnSuccess 0 2 ''flag'' kIOReturnSuccess 0 (replicate 32 0)
               :: 64 word iokit"
  let ?rs = "zero_smc_return_t\<lparr>dataSize := 1, dataType := to_uint32_t DATA_TYPE_FLAG\<rparr>"
  let ?c = "call_smc ?io (key_info_request ''MSDI'') zero_SMCParamStruct initial_machine"
  have e1: "fst ?c = kIOReturnSuccess" by code_simp
  have h1: "?c = (kIOReturnSuccess, fst (snd ?c), snd (snd ?c))"
    using e1 by (metis prod.collapse)
  have h2: "ucast (SMCParamStruct.result (fst (snd ?c))) = kSMCSuccess" by code_simp
  have h3: "unat (dataSize ?rs) \<noteq> unat (SMCKeyInfoData.dataSize (keyInfo (fst (snd ?c)))) \<or>
            dataType ?rs \<noteq> SMCKeyInfoData.dataType (keyInfo (fst (snd ?c)))"
    by code_simp
  have e3: "trace initial_machine = []" by (simp add: initial_machine_def)
  from write_smc_type_mismatch [OF h1 h2 h3] show ?thesis
    by (simp add: e3)
qed

lemma call_smc_exhaust:
  obtains r out m' where "call_smc io inputStruct outputStruct m = (r, out, m')"
    and "m' = m\<lparr>trace := trace m @ [transaction (conn m) inputStruct]\<rparr>"
proof -
  obtain r out m' where c: "call_smc io inputStruct outputStruct m = (r, out, m')"
    by (cases "call_smc io inputStruct outputStruct m") auto
  from c call_smc_machine [OF c] show thesis by (rule that)
qed

lemma read_smc_frame:
  fixes io :: "('w::len) word iokit"
  shows "\<exists>reqs. snd (snd (read_smc io skey m)) =
           m\<lparr>trace := trace m @
                map (transaction (conn m)) (key_info_request skey # reqs)\<rparr>"
proof -
  obtain r1 out1 m1 where c1: "call_smc io (key_info_request skey) zero_SMCParamStruct m = (r1, out1, m1)"
    and m1: "m1 = m\<lparr>trace := trace m @ [transaction (conn m) (key_info_request skey)]\<rparr>"
    by (rule call_smc_exhaust)
  let ?req2 = "(key_info_request skey :: 'w word SMCParamStruct)
                 \<lparr>keyInfo := (keyInfo (key_info_request skey :: 'w word SMCParamStruct))
                    \<lparr>SMCKeyInfoData.dataSize := SMCKeyInfoData.dataSize (keyInfo out1)\<rparr>,
                  data8 := ucast kSMCReadKey\<rparr>"
  obtain r2 out2 m2 where c2: "call_smc io ?req2 out1 m1 = (r2, out2, m2)"
    and m2: "m2 = m1\<lparr>trace := trace m1 @ [transaction (conn m1) ?req2]\<rparr>"
    by (rule call_smc_exhaust)
  have "snd (snd (read_smc io skey m)) = m1 \<or> snd (snd (read_smc io skey m)) = m2"
    using c1 c2 by (auto simp add: read_smc_def key_info_request_def Let_def)
  then show ?thesis
  proof
    assume "snd (snd (read_smc io skey m)) = m1"
    then have "snd (snd (read_smc io skey m)) =
        m\<lparr>trace := trace m @ map (transaction (conn m)) (key_info_request skey # [])\<rparr>"
      by (simp add: m1)
    then show ?thesis by blast
  next
    assume "snd (snd (read_smc io skey m)) = m2"
    then have "snd (snd (read_smc io skey m)) =
        m\<lparr>trace := trace m @
             map (transaction (conn m)) (key_info_request skey # [?req2])\<rparr>"
      by (simp add: m1 m2)
    then show ?thesis by blast
  qed
qed

lemma write_smc_frame:
  fixes io :: "('w::len) word iokit"
  shows "\<exists>reqs. snd (snd (write_smc io skey result_smc m)) =
           m\<lparr>trace := trace m @
                map (transaction (conn m)) (key_info_request skey # reqs)\<rparr>"
proof -
  obtain r1 out1 m1
    where c1: "call_smc io (key_info_request skey) zero_SMCParamStruct m = (r1, out1, m1)"
    and m1: "m1 = m\<lparr>trace := trace m @ [transaction (conn m) (key_info_request skey)]\<rparr>"
    by (rule call_smc_exhaust)
  let ?req2 = "(key_info_request skey :: 'w word SMCParamStruct)
                 \<lparr>data8 := ucast kSMCWriteKey,
                  keyInfo := (keyInfo (key_info_request skey :: 'w word SMCParamStruct))
                    \<lparr>SMCKeyInfoData.dataSize := SMCKeyInfoData.dataSize (keyInfo out1)\<rparr>,
                  bytes := data result_smc\<rparr>"
  obtain r2 out2 m2 where c2: "call_smc io ?req2 out1 m1 = (r2, out2, m2)"
    and m2: "m2 = m1\<lparr>trace := trace m1 @ [transaction (conn m1) ?req2]\<rparr>"
    by (rule call_smc_exhaust)
  have "snd (snd (write_smc io skey result_smc m)) = m1 \<or>
        snd (snd (write_smc io skey result_smc m)) = m2"
    using c1 c2 by (auto simp add: write_smc_def key_info_request_def Let_def)
  then show ?thesis
  proof
    assume "snd (snd (write_smc io skey result_smc m)) = m1"
    then have "snd (snd (write_smc io skey result_smc m)) =
        m\<lparr>trace := trace m @ map (transaction (conn m)) (key_info_request skey # [])\<rparr>"
      by (simp add: m1)
    then show ?thesis by blast
  next
    assume "snd (snd (write_smc io skey result_smc m)) = m2"
    then have "snd (snd (write_smc io skey result_smc m)) =
        m\<lparr>trace := trace m @
             map (transaction (conn m)) (key_info_request skey # [?req2])\<rparr>"
      by (simp add: m1 m2)
    then show ?thesis by blast
  qed
qed

text \<open>
  Claim C9. Whatever the channel answers, \<^verbatim>\<open>read_smc\<close> and \<^verbatim>\<open>write_smc\<close> leave the
  connection \<^verbatim>\<open>conn\<close> as it was, and the only calls they make are transactions on that
  connection: they do not open, close or release anything.
\<close>

theorem transactions_keep_connection:
  fixes io :: "('w::len) word iokit"
  shows "conn (snd (snd (read_smc io skey m))) = conn m \<and>
         conn (snd (snd (write_smc io skey result_smc m))) = conn m \<and>
         (\<exists>reqs. trace (snd (snd (read_smc io skey m))) =
                   trace m @ map (transaction (conn m)) reqs) \<and>
         (\<exists>reqs. trace (snd (snd (write_smc io skey result_smc m))) =
                   trace m @ map (transaction (conn m)) reqs)"
proof -
  obtain rq where r: "snd (snd (read_smc io skey m)) =
      m\<lparr>trace := trace m @ map (transaction (conn m)) (key_info_request skey # rq)\<rparr>"
    using read_smc_frame [of io skey m] by blast
  obtain wq where w: "snd (snd (write_smc io skey result_smc m)) =
      m\<lparr>trace := trace m @ map (transaction (conn m)) (key_info_request skey # wq)\<rparr>"
    using write_smc_frame [of io skey result_smc m] by blast
  have "trace (snd (snd (read_smc io skey m))) =
      trace m @ map (transaction (conn m)) (key_info_request skey # rq)"
    unfolding r by simp
  moreover have "trace (snd (snd (write_smc io skey result_smc m))) =
      trace m @ map (transaction (conn m)) (key_info_request skey # wq)"
    unfolding w by simp
  moreover have "conn (snd (snd (read_smc io skey m))) = conn m" unfolding r by simp
  moreover have "conn (snd (snd (write_smc io skey result_smc m))) = conn m"
    unfolding w by simp
  ultimately show ?thesis by blast
qed

text \<open>The theorem at a channel on which every call fails, for the connection 7.\<close>

theorem transactions_keep_connection_witness:
  "conn (snd (snd (read_smc (stub_iokit kIOReturnError 0 0 [] kIOReturnError 0 [])
                     ''F0Mn'' (initial_machine\<lparr>conn := 7\<rparr>)))) = 7 \<and>
   conn (snd (snd (write_smc (stub_iokit kIOReturnError 0 0 [] kIOReturnError 0 [])
                     ''F0Mn'' zero_smc_return_t (initial_machine\<lparr>conn := 7\<rparr>)))) = 7"
  using transactions_keep_connection
    [where io = "stub_iokit kIOReturnError 0 0 [] kIOReturnError 0 [] :: 64 word iokit"
       and skey = "''F0Mn''" and m = "initial_machine\<lparr>conn := 7\<rparr>"
       and result_smc = zero_smc_return_t]
  by simp

section \<open>Fixed-point conversion\<close>

text \<open>What decoding an encoded value returns, for every value of the 14-bit range.\<close>

lemma ucast_xor_high:
  fixes x y :: "32 word"
  shows "(ucast (x XOR push_bit 8 y) :: 8 word) = ucast x"
  by (auto simp add: bit_eq_iff bit_simps)

lemma to_fpe2_bytes:
  assumes "2 \<le> length buf"
  shows "to_fpe2 val buf ! 0 = ucast (drop_bit 6 val) \<and> to_fpe2 val buf ! 1 = ucast (push_bit 2 val)"
proof -
  from assms have "0 < length buf" "1 < length buf" by auto
  then show ?thesis by (simp add: to_fpe2_def Let_def ucast_xor_high)
qed

lemma fpe2_round_trip_value:
  assumes "val \<le> 16383" and "2 \<le> length buf"
  shows "unat (from_fpe2 (to_fpe2 val buf)) = unat val + 15 * (unat val mod 64)"
proof -
  from assms(1) have v: "unat val \<le> 16383" by (simp add: word_le_nat_alt)
  have d0: "unat (ucast (drop_bit 6 val) :: 8 word) = unat val div 64"
  proof -
    have "unat (ucast (drop_bit 6 val) :: 8 word) = (unat val div 64) mod 256"
      by (simp add: unsigned_ucast_eq unat_drop_bit_eq drop_bit_eq_div take_bit_eq_mod unat_div_distrib)
    then show ?thesis using v by simp
  qed
  have d1: "unat (ucast (push_bit 2 val) :: 8 word) = 4 * (unat val mod 64)"
  proof -
    have "unat (ucast (push_bit 2 val) :: 8 word) = (unat val * 4) mod 256"
      using v by (simp add: unsigned_ucast_eq unsigned_push_bit_eq push_bit_eq_mult take_bit_eq_mod unat_word_ariths)
    then show ?thesis by (simp add: mult_mod_right mult.commute)
  qed
  define b0 where "b0 = to_fpe2 val buf ! 0"
  define b1 where "b1 = to_fpe2 val buf ! 1"
  have b0: "unat b0 = unat val div 64" and b1: "unat b1 = 4 * (unat val mod 64)"
    using to_fpe2_bytes [OF assms(2), of val] d0 d1 by (simp_all add: b0_def b1_def)
  have q: "unat val div 64 \<le> 255" using v by simp
  have r: "unat val mod 64 \<le> 63" by simp
  have u0: "unat (ucast b0 :: 32 word) = unat val div 64"
    using q by (simp add: unsigned_ucast_eq take_bit_eq_mod b0)
  have u1: "unat (ucast b1 :: 32 word) = 4 * (unat val mod 64)"
    using r by (simp add: unsigned_ucast_eq take_bit_eq_mod b1)
  have s0: "unat (push_bit 6 (ucast b0 :: 32 word)) = 64 * (unat val div 64)"
    using q by (simp add: push_bit_eq_mult unat_word_ariths u0)
  have s1: "unat (push_bit 2 (ucast b1 :: 32 word)) = 16 * (unat val mod 64)"
    using r by (simp add: push_bit_eq_mult unat_word_ariths u1)
  have "from_fpe2 (to_fpe2 val buf) = push_bit 6 (ucast b0) + push_bit 2 (ucast b1)"
    by (simp add: from_fpe2_def Let_def b0_def b1_def)
  then have "unat (from_fpe2 (to_fpe2 val buf)) =
      (64 * (unat val div 64) + 16 * (unat val mod 64)) mod 2 ^ 32"
    by (simp only: unat_word_ariths s0 s1) simp
  also have "64 * (unat val div 64) + 16 * (unat val mod 64) = unat val + 15 * (unat val mod 64)"
    by presburger
  finally show ?thesis using v by simp
qed

text \<open>
  Claim C1 fails on the code. \<^verbatim>\<open>to_fpe2\<close> stores the low six bits of the value in the
  upper six bits of the second byte; \<^verbatim>\<open>from_fpe2\<close> shifts the second byte left by two
  where the encoding needs a shift right by two. By the lemma above the round trip
  returns \<open>v + 15 * (v mod 64)\<close>: it returns \<open>v\<close> for the multiples of 64 only. For the
  value 1 the encoding is the bytes 0 and 4, and decoding them gives 16.
\<close>

theorem from_fpe2_to_fpe2_one:
  "to_fpe2 1 (replicate 32 0) = 0 # 4 # replicate 30 0 \<and>
   from_fpe2 (to_fpe2 1 (replicate 32 0)) = 16"
  by code_simp

section \<open>Fan keys\<close>

lemma sint_small:
  fixes w :: "32 word"
  assumes "unat w < 2 ^ 31"
  shows "sint w = int (unat w)"
proof -
  have "int (unat w) < int (2 ^ 31)" using assms by (simp only: of_nat_less_iff)
  then have lt: "uint w < 2 ^ 31" by (simp only: uint_nat of_nat_power of_nat_numeral)
  have ge: "- (2 ^ 31) \<le> uint w"
    by (rule order_trans [of _ 0]) simp_all
  have "sint w = signed_take_bit 31 (uint w)" by (simp add: sint_uint)
  also have "\<dots> = uint w" using ge lt by (rule signed_take_bit_int_eq_self)
  finally show ?thesis by (simp only: uint_nat)
qed

lemma sint_large:
  fixes w :: "32 word"
  assumes "\<not> unat w < 2 ^ 31"
  shows "sint w < 0"
proof -
  have ub: "unat w < 2 ^ 32" using unsigned_less [of w] by simp
  from assms have lb: "2 ^ 31 \<le> unat w" by simp
  have "unat w div 2 ^ 31 = 1"
    using lb ub by (simp add: div_eq_dividend_iff Euclidean_Rings.div_nat_eqI)
  then have "bit (unat w) 31" by (simp add: bit_iff_odd)
  then have "bit (uint w) 31" by (simp add: bit_unsigned_iff)
  then show ?thesis by (simp add: sint_uint)
qed

lemma decimal_digit: "n < 10 \<Longrightarrow> decimal n = [char_of (48 + n)]"
  by (simp add: decimal.simps [of n])

lemma decimal_nonempty: "1 \<le> length (decimal n)"
  by (simp add: decimal.simps [of n])

lemma decimal_long:
  assumes "10 \<le> n"
  shows "2 \<le> length (decimal n)"
proof -
  from assms have "decimal n = decimal (n div 10) @ [char_of (48 + n mod 10)]"
    by (simp add: decimal.simps [of n])
  then show ?thesis using decimal_nonempty [of "n div 10"] by simp
qed

lemma printf_d_digit:
  fixes fan_num :: "32 word"
  assumes "fan_num \<le> 9"
  shows "printf_d fan_num = [char_of (48 + unat fan_num)]"
proof -
  from assms have u: "unat fan_num \<le> 9" by (simp add: word_le_nat_alt)
  then have "unat fan_num < 2 ^ 31" by simp
  then have "sint fan_num = int (unat fan_num)" by (rule sint_small)
  then show ?thesis using u by (simp add: printf_d_def decimal_digit)
qed

lemma printf_d_long:
  fixes fan_num :: "32 word"
  assumes "9 < fan_num"
  shows "2 \<le> length (printf_d fan_num)"
proof (cases "unat fan_num < 2 ^ 31")
  case True
  then have s: "sint fan_num = int (unat fan_num)" by (rule sint_small)
  from assms have "10 \<le> unat fan_num" by (simp add: word_less_nat_alt)
  then show ?thesis using s by (simp add: printf_d_def decimal_long)
next
  case False
  then have "sint fan_num < 0" by (rule sint_large)
  then show ?thesis using decimal_nonempty [of "nat (- sint fan_num)"]
    by (simp add: printf_d_def)
qed

lemma fan_key_text_digit:
  fixes fan_num :: "32 word"
  assumes "fan_num \<le> 9"
  shows "fan_key_text suffix fan_num = CHR ''F'' # char_of (48 + unat fan_num) # suffix"
  using printf_d_digit [OF assms] by (simp add: fan_key_text_def)

lemma fan_key_text_long:
  fixes fan_num :: "32 word"
  assumes "9 < fan_num" and "length suffix = 2"
  shows "4 < length (fan_key_text suffix fan_num)"
  using printf_d_long [OF assms(1)] assms(2) by (simp add: fan_key_text_def)

text \<open>
  The keys of the fan functions. For a fan index from 0 to 9 the text formatted from
  \<^verbatim>\<open>F%dAc\<close>, \<^verbatim>\<open>F%dID\<close> or \<^verbatim>\<open>F%dMn\<close> has four characters and fits \<^verbatim>\<open>key[5]\<close>, and
  \<^verbatim>\<open>to_uint32_t\<close> packs it into a key that is not 0. For every other fan index (10 or
  more; from \<open>2 ^ 31\<close> on, \<^verbatim>\<open>%d\<close> prints a sign) the text has more than four characters:
  it does not fit \<^verbatim>\<open>key[5]\<close>, and \<^verbatim>\<open>to_uint32_t\<close> of it is 0.
\<close>

lemma fan_key_invariant:
  assumes "suffix = ''Ac'' \<or> suffix = ''ID'' \<or> suffix = ''Mn''"
  shows "(fan_num \<le> 9 \<longrightarrow>
            length (fan_key_text suffix fan_num) = 4 \<and>
            \<not> key_overflow (fan_key_text suffix fan_num) \<and>
            to_uint32_t (fan_key_text suffix fan_num) =
              pack_be (of_char CHR ''F'') (48 + ucast fan_num)
                      (of_char (suffix ! 0)) (of_char (suffix ! 1)) \<and>
            to_uint32_t (fan_key_text suffix fan_num) \<noteq> 0) \<and>
         (9 < fan_num \<longrightarrow>
            4 < length (fan_key_text suffix fan_num) \<and>
            key_overflow (fan_key_text suffix fan_num) \<and>
            to_uint32_t (fan_key_text suffix fan_num) = 0)"
proof (intro conjI impI)
  assume le: "fan_num \<le> 9"
  then have u: "unat fan_num \<le> 9" by (simp add: word_le_nat_alt)
  from assms have len: "length suffix = 2" by auto
  then obtain s0 s1 where suf: "suffix = [s0, s1]"
    by (auto simp add: length_Suc_conv numeral_eq_Suc)
  from assms suf have asc: "(of_char s0 :: nat) < 128" "(of_char s1 :: nat) < 128" "s1 \<noteq> CHR 0x00"
    by auto
  have ktext: "fan_key_text suffix fan_num = [CHR ''F'', char_of (48 + unat fan_num), s0, s1]"
    using le by (simp add: fan_key_text_digit suf)
  show l4: "length (fan_key_text suffix fan_num) = 4" by (simp add: ktext)
  show "\<not> key_overflow (fan_key_text suffix fan_num)"
    using l4 by (simp add: key_overflow_def)
  have d: "(of_char (char_of (48 + unat fan_num)) :: nat) = 48 + unat fan_num"
    using u by simp
  have dw: "(of_char (char_of (48 + unat fan_num)) :: 8 word) = 48 + ucast fan_num"
  proof -
    have "(of_char (char_of (48 + unat fan_num)) :: 8 word) =
        of_nat (of_char (char_of (48 + unat fan_num)))"
      by (simp only: of_nat_of_char)
    also have "\<dots> = of_nat (48 + unat fan_num)" by (simp only: d)
    also have "\<dots> = 48 + ucast fan_num" by (simp only: of_nat_add of_nat_numeral of_nat_unat)
    finally show ?thesis .
  qed
  have "to_uint32_t (fan_key_text suffix fan_num) =
      pack_be (of_char CHR ''F'') (of_char (char_of (48 + unat fan_num))) (of_char s0) (of_char s1)"
    unfolding ktext using asc u by (intro to_uint32_t_ascii) (simp_all only: d, simp_all)
  then show p: "to_uint32_t (fan_key_text suffix fan_num) =
      pack_be (of_char CHR ''F'') (48 + ucast fan_num)
              (of_char (suffix ! 0)) (of_char (suffix ! 1))"
    by (simp only: dw suf) simp
  show "to_uint32_t (fan_key_text suffix fan_num) \<noteq> 0"
    unfolding p using asc(3) by (intro pack_be_nonzero of_char_word_nonzero) (simp add: suf)
next
  assume gt: "9 < fan_num"
  from assms have len: "length suffix = 2" by auto
  show l: "4 < length (fan_key_text suffix fan_num)"
    using gt len by (rule fan_key_text_long)
  then show "to_uint32_t (fan_key_text suffix fan_num) = 0"
    by (intro to_uint32_t_wrong_length) simp
  show "key_overflow (fan_key_text suffix fan_num)"
    using l by (simp add: key_overflow_def)
qed

text \<open>
  Whatever the fan index and whatever the channel answers, the first call of each fan
  function is the key-info request for \<^verbatim>\<open>to_uint32_t\<close> of its formatted text, and all
  its calls are transactions on the connection.
\<close>

lemma fan_functions_first_request:
  fixes io :: "('w::len) word iokit"
  shows "key (key_info_request skey :: 'w word SMCParamStruct) = to_uint32_t skey"
    and "\<exists>reqs. snd (get_fan_rpm io fan_num m) =
           m\<lparr>trace := trace m @ map (transaction (conn m))
                (key_info_request (fan_key_text ''Ac'' fan_num) # reqs)\<rparr>"
    and "\<exists>reqs. snd (snd (get_fan_name io fan_num name m)) =
           m\<lparr>trace := trace m @ map (transaction (conn m))
                (key_info_request (fan_key_text ''ID'' fan_num) # reqs)\<rparr>"
    and "\<exists>reqs. snd (set_fan_min_rpm io fan_num rpm auth m) =
           m\<lparr>trace := trace m @ map (transaction (conn m))
                (key_info_request (fan_key_text ''Mn'' fan_num) # reqs)\<rparr>"
proof -
  show "key (key_info_request skey :: 'w word SMCParamStruct) = to_uint32_t skey"
    by (simp add: key_info_request_def)
  have "snd (get_fan_rpm io fan_num m) =
      snd (snd (read_smc io (fan_key_text ''Ac'' fan_num) m))"
    by (cases "read_smc io (fan_key_text ''Ac'' fan_num) m")
      (simp add: get_fan_rpm_def Let_def)
  then show "\<exists>reqs. snd (get_fan_rpm io fan_num m) =
      m\<lparr>trace := trace m @ map (transaction (conn m))
           (key_info_request (fan_key_text ''Ac'' fan_num) # reqs)\<rparr>"
    using read_smc_frame [of io "fan_key_text ''Ac'' fan_num" m] by simp
  have "snd (snd (get_fan_name io fan_num name m)) =
      snd (snd (read_smc io (fan_key_text ''ID'' fan_num) m))"
    by (cases "read_smc io (fan_key_text ''ID'' fan_num) m")
      (simp add: get_fan_name_def Let_def split: prod.splits)
  then show "\<exists>reqs. snd (snd (get_fan_name io fan_num name m)) =
      m\<lparr>trace := trace m @ map (transaction (conn m))
           (key_info_request (fan_key_text ''ID'' fan_num) # reqs)\<rparr>"
    using read_smc_frame [of io "fan_key_text ''ID'' fan_num" m] by simp
  let ?r = "zero_smc_return_t
              \<lparr>dataSize := 2, dataType := to_uint32_t DATA_TYPE_FPE2,
               data := to_fpe2 rpm (data zero_smc_return_t)\<rparr>"
  have "snd (set_fan_min_rpm io fan_num rpm auth m) =
      snd (snd (write_smc io (fan_key_text ''Mn'' fan_num) ?r m))"
    by (cases "write_smc io (fan_key_text ''Mn'' fan_num) ?r m")
      (simp add: set_fan_min_rpm_def Let_def)
  then show "\<exists>reqs. snd (set_fan_min_rpm io fan_num rpm auth m) =
      m\<lparr>trace := trace m @ map (transaction (conn m))
           (key_info_request (fan_key_text ''Mn'' fan_num) # reqs)\<rparr>"
    using write_smc_frame [of io "fan_key_text ''Mn'' fan_num" ?r m] by simp
qed


section \<open>The sensor facade\<close>

text \<open>
  Claim C5 fails on the code, by the defect of claim C1. The channel opens, answers the
  key-info request for \<^verbatim>\<open>F0Ac\<close> with size 2 and type \<^verbatim>\<open>fpe2\<close> and the read request
  with the two bytes that \<^verbatim>\<open>to_fpe2\<close> gives for 1200, \<^verbatim>\<open>0x12\<close> and \<^verbatim>\<open>0xC0\<close>;
  \<^verbatim>\<open>get_fan_rpm(0)\<close> returns 1920.
\<close>

theorem get_fan_rpm_1200:
  "to_fpe2 1200 (replicate 32 0) = 0x12 # 0xC0 # replicate 30 0 \<and>
   fst (open_smc (stub_iokit kIOReturnSuccess 0 2 ''fpe2'' kIOReturnSuccess 0
                    (0x12 # 0xC0 # replicate 30 0)) initial_machine) = kIOReturnSuccess \<and>
   fst (get_fan_rpm (stub_iokit kIOReturnSuccess 0 2 ''fpe2'' kIOReturnSuccess 0
                       (0x12 # 0xC0 # replicate 30 0)) 0
          (snd (open_smc (stub_iokit kIOReturnSuccess 0 2 ''fpe2'' kIOReturnSuccess 0
                            (0x12 # 0xC0 # replicate 30 0)) initial_machine))) = 1920"
  by code_simp

text \<open>
  Claim C6 fails on the code. When the key-info request succeeds and the read request
  comes back with \<^verbatim>\<open>kIOReturnSuccess\<close> and the SMC status \<^verbatim>\<open>kSMCError\<close>, \<^verbatim>\<open>read_smc\<close>
  returns \<^verbatim>\<open>kIOReturnSuccess\<close> with the size and type of the key and a zeroed payload.
  \<^verbatim>\<open>is_key_valid\<close> reads the status and answers false; the value-returning functions
  do not read it and decode the zeroed payload: \<^verbatim>\<open>get_num_fans\<close> returns 0 where
  smc.h promises -1, and \<^verbatim>\<open>get_tmp\<close> in Fahrenheit returns 32 where it promises 0.
\<close>

theorem get_num_fans_read_status_ignored:
  "fst (is_key_valid
          (stub_iokit kIOReturnSuccess 0 1 ''ui8 '' kIOReturnSuccess 1 (replicate 32 0))
          NUM_FANS initial_machine) = False \<and>
   sint (fst (get_num_fans
          (stub_iokit kIOReturnSuccess 0 1 ''ui8 '' kIOReturnSuccess 1 (replicate 32 0))
          initial_machine)) = 0 \<and>
   fst (get_tmp (stub_iokit kIOReturnSuccess 0 2 ''sp78'' kIOReturnSuccess 1 (replicate 32 0))
          ''TC0D'' FAHRENHEIT initial_machine) = 32"
  by code_simp

lemma get_fan_name_loop_eq:
  assumes "i \<le> 16" and "index + (16 - i) \<le> length name"
  shows "get_fan_name_loop dat i (name, index) =
           (take index name @
              map (char_of \<circ> unat) (takeWhile (\<lambda>b. b \<noteq> 32) (map ((!) dat) [i..<16])) @
              drop (index + length (takeWhile (\<lambda>b. b \<noteq> 32) (map ((!) dat) [i..<16]))) name,
            index + length (takeWhile (\<lambda>b. b \<noteq> 32) (map ((!) dat) [i..<16])))"
  using assms
proof (induction dat i "(name, index)" arbitrary: name index rule: get_fan_name_loop.induct)
  case (1 dat i name index)
  show ?case
  proof (cases "i < 16")
    case False
    with "1.prems" have "i = 16" by simp
    then show ?thesis by (simp add: get_fan_name_loop.simps [of dat 16])
  next
    case lt: True
    then have upt: "[i..<16] = i # [i + 1..<16]" by (simp add: upt_conv_Cons)
    show ?thesis
    proof (cases "dat ! i = 32")
      case True
      with lt show ?thesis by (simp add: get_fan_name_loop.simps [of dat i] upt)
    next
      case False
      from lt "1.prems" have idx: "index < length name" by simp
      let ?name' = "name[index := char_of (unat (dat ! i))]"
      let ?cp = "takeWhile (\<lambda>b. b \<noteq> 32) (map ((!) dat) [i + 1..<16])"
      have ih: "get_fan_name_loop dat (i + 1) (?name', index + 1) =
          (take (index + 1) ?name' @ map (char_of \<circ> unat) ?cp @
             drop (index + 1 + length ?cp) ?name',
           index + 1 + length ?cp)"
        using lt "1.prems" by (intro "1.hyps" [OF lt False]) simp_all
      have t: "take (index + 1) ?name' = take index name @ [char_of (unat (dat ! i))]"
        using idx by (simp add: take_Suc_conv_app_nth)
      have d: "drop (index + 1 + length ?cp) ?name' = drop (index + 1 + length ?cp) name"
        by simp
      have "get_fan_name_loop dat i (name, index) =
          get_fan_name_loop dat (i + 1) (?name', index + 1)"
        using lt False by (simp add: get_fan_name_loop.simps [of dat i])
      then show ?thesis
        unfolding ih t d upt using False by simp
    qed
  qed
qed

lemma map_nth_upt:
  assumes "j \<le> length xs"
  shows "map ((!) xs) [i..<j] = take (j - i) (drop i xs)"
  using assms by (intro nth_equalityI) (auto simp add: add.commute)

lemma fan_name_region:
  assumes "length dat = 32"
  shows "map ((!) dat) [4..<16] = take 12 (drop 4 dat)"
proof -
  have "map ((!) dat) [4..<16] = take (16 - 4) (drop 4 dat)"
    using assms by (intro map_nth_upt) simp
  then show ?thesis by (simp del: upt_rec_numeral)
qed

text \<open>
  What \<^verbatim>\<open>get_fan_name\<close> writes. Let the read of the key \<^verbatim>\<open>F<n>ID\<close> succeed with size 16
  and type \<^verbatim>\<open>{fds\<close>. Then \<^verbatim>\<open>get_fan_name\<close> returns true, and the characters it has
  written at the start of the caller's buffer \<^verbatim>\<open>name\<close> are exactly the payload bytes at
  the positions 4 to 15 up to, and without, the first byte \<^verbatim>\<open>0x20\<close>. It writes nothing
  else, no terminator either: the rest of the buffer is as the caller passed it.
\<close>

lemma get_fan_name_payload:
  fixes io :: "('w::len) word iokit"
  assumes "read_smc io (fan_key_text ''ID'' fan_num) m = (kIOReturnSuccess, result_smc, m')"
    and "dataSize result_smc = 16"
    and "dataType result_smc = to_uint32_t DATA_TYPE_SFDS"
    and "length (data result_smc) = 32"
    and "length name = 13"
  shows "\<exists>name'. get_fan_name io fan_num name m = (True, name', m') \<and>
           length name' = 13 \<and>
           (let copied = takeWhile (\<lambda>b. b \<noteq> 32) (take 12 (drop 4 (data result_smc)))
            in take (length copied) name' = map (char_of \<circ> unat) copied \<and>
               drop (length copied) name' = drop (length copied) name)"
proof -
  let ?cp = "takeWhile (\<lambda>b. b \<noteq> 32) (take 12 (drop 4 (data result_smc)))"
  let ?name' = "map (char_of \<circ> unat) ?cp @ drop (length ?cp) name"
  have len: "length ?cp \<le> 12"
    by (rule order_trans [OF length_takeWhile_le]) simp
  have "get_fan_name_loop (data result_smc) 4 (name, 0) =
      (take 0 name @
         map (char_of \<circ> unat)
           (takeWhile (\<lambda>b. b \<noteq> 32) (map ((!) (data result_smc)) [4..<16])) @
         drop (0 + length (takeWhile (\<lambda>b. b \<noteq> 32) (map ((!) (data result_smc)) [4..<16])))
           name,
       0 + length (takeWhile (\<lambda>b. b \<noteq> 32) (map ((!) (data result_smc)) [4..<16])))"
    using assms(5) by (intro get_fan_name_loop_eq) simp_all
  then have loop: "get_fan_name_loop (data result_smc) 4 (name, 0) = (?name', length ?cp)"
    unfolding fan_name_region [OF assms(4)] by simp
  have 1: "get_fan_name io fan_num name m = (True, ?name', m')"
    using assms(1-3) loop by (simp add: get_fan_name_def)
  have 2: "length ?name' = 13"
    using len assms(5) by simp
  have 3: "take (length ?cp) ?name' = map (char_of \<circ> unat) ?cp" by simp
  have 4: "drop (length ?cp) ?name' = drop (length ?cp) name" by simp
  show ?thesis unfolding Let_def using 1 2 3 4 by blast
qed

text \<open>
  Claim C7 fails on the code: the name that \<^verbatim>\<open>get_fan_name\<close> returns is not always the
  payload bytes before the first space. The read of \<^verbatim>\<open>F0ID\<close> succeeds with size 16 and
  type \<^verbatim>\<open>{fds\<close>, and the name region of the payload holds \<^verbatim>\<open>F\<close>, \<^verbatim>\<open>a\<close>, \<^verbatim>\<open>n\<close>, a space
  and zeros. \<^verbatim>\<open>get_fan_name\<close> copies three characters and writes no terminator after
  them. In a buffer that held twelve \<^verbatim>\<open>X\<close> and a terminator it returns, with the
  result true, the name \<^verbatim>\<open>FanXXXXXXXXX\<close>; the name is \<^verbatim>\<open>Fan\<close> only in a buffer that the
  caller had filled with zeros.
\<close>

theorem get_fan_name_no_terminator:
  "fst (get_fan_name
          (stub_iokit kIOReturnSuccess 0 16 ''{fds'' kIOReturnSuccess 0
             ([1, 2, 3, 4, 0x46, 0x61, 0x6E, 0x20] @ replicate 24 0))
          0 (''XXXXXXXXXXXX'' @ [CHR 0x00]) initial_machine) = True \<and>
   fst (snd (get_fan_name
          (stub_iokit kIOReturnSuccess 0 16 ''{fds'' kIOReturnSuccess 0
             ([1, 2, 3, 4, 0x46, 0x61, 0x6E, 0x20] @ replicate 24 0))
          0 (''XXXXXXXXXXXX'' @ [CHR 0x00]) initial_machine)) =
     ''FanXXXXXXXXX'' @ [CHR 0x00] \<and>
   fst (snd (get_fan_name
          (stub_iokit kIOReturnSuccess 0 16 ''{fds'' kIOReturnSuccess 0
             ([1, 2, 3, 4, 0x46, 0x61, 0x6E, 0x20] @ replicate 24 0))
          0 (replicate 13 (CHR 0x00)) initial_machine)) =
     ''Fan'' @ replicate 10 (CHR 0x00)"
  by code_simp

subsection \<open>Temperature\<close>

text \<open>Rounding to binary64 changes a value by at most the fraction \<open>2 ^ -53\<close> of it.\<close>

lemma round_half_even_error: "\<bar>of_int (round_half_even x) - x\<bar> \<le> 1 / 2"
proof -
  have "of_int \<lfloor>x\<rfloor> \<le> x" "x < of_int \<lfloor>x\<rfloor> + 1" by linarith+
  then show ?thesis by (auto simp add: round_half_even_def Let_def)
qed

lemma bitlen_nat_bounds:
  assumes "0 < p"
  shows "1 \<le> nat (bitlen p) \<and> bitlen p = int (nat (bitlen p)) \<and>
         2 ^ (nat (bitlen p) - 1) \<le> p \<and> p < 2 ^ nat (bitlen p)"
proof -
  have "1 \<le> bitlen p" using assms by (simp add: bitlen_ge_iff_power)
  then have 1: "1 \<le> nat (bitlen p)" and 2: "bitlen p = int (nat (bitlen p))"
    and 3: "nat (bitlen p - 1) = nat (bitlen p) - 1"
    by simp_all
  from bitlen_bounds [OF assms] show ?thesis using 1 2 unfolding 3 by simp
qed

lemma binade_bounds:
  assumes "x \<noteq> 0"
  shows "2 powi (binade x) \<le> \<bar>x\<bar> \<and> \<bar>x\<bar> < 2 powi (binade x + 1)"
proof -
  obtain p q where pq: "quotient_of \<bar>x\<bar> = (p, q)" by (cases "quotient_of \<bar>x\<bar>")
  then have q: "0 < q" by (rule quotient_of_denom_pos)
  have x: "\<bar>x\<bar> = of_int p / of_int q" using pq by (rule quotient_of_div)
  have "0 < \<bar>x\<bar>" using assms by simp
  then have p: "0 < p" using q unfolding x by (simp add: zero_less_divide_iff)
  define a where "a = nat (bitlen p)"
  define b where "b = nat (bitlen q)"
  have a: "1 \<le> a" "bitlen p = int a" "2 ^ (a - 1) \<le> p" "p < 2 ^ a"
    using bitlen_nat_bounds [OF p] by (simp_all add: a_def)
  have b: "1 \<le> b" "bitlen q = int b" "2 ^ (b - 1) \<le> q" "q < 2 ^ b"
    using bitlen_nat_bounds [OF q] by (simp_all add: b_def)
  define d where "d = int a - int b"
  have pr: "(2 :: rat) ^ (a - 1) \<le> of_int p" "of_int p < (2 :: rat) ^ a"
    using a(3,4) by (metis of_int_le_iff of_int_numeral of_int_power, metis of_int_less_iff of_int_numeral of_int_power)
  have qr: "(2 :: rat) ^ (b - 1) \<le> of_int q" "of_int q < (2 :: rat) ^ b" "(0 :: rat) < of_int q"
    using b(3,4) q by (metis of_int_le_iff of_int_numeral of_int_power, metis of_int_less_iff of_int_numeral of_int_power, simp)
  have up: "\<bar>x\<bar> < 2 powi (d + 1)"
  proof -
    have "\<bar>x\<bar> < 2 ^ a / of_int q" unfolding x using pr(2) qr(3) by (simp add: divide_strict_right_mono)
    also have "\<dots> \<le> 2 ^ a / 2 ^ (b - 1)" using qr(1) by (simp add: frac_le)
    also have "\<dots> = 2 powi (int a - int (b - 1))" by (simp add: power_int_diff)
    also have "int a - int (b - 1) = d + 1" using b(1) by (simp add: d_def)
    finally show ?thesis .
  qed
  have lo: "2 powi (d - 1) \<le> \<bar>x\<bar>"
  proof -
    have "d - 1 = int (a - 1) - int b" using a(1) by (simp add: d_def of_nat_diff)
    then have "2 powi (d - 1) = (2 :: rat) powi (int (a - 1) - int b)" by (simp only:)
    also have "\<dots> = 2 ^ (a - 1) / 2 ^ b" by (simp add: power_int_diff)
    also have "\<dots> \<le> 2 ^ (a - 1) / of_int q" using qr(2,3) by (simp add: frac_le)
    also have "\<dots> \<le> \<bar>x\<bar>" unfolding x using pr(1) qr(3) by (simp add: divide_right_mono)
    finally show ?thesis .
  qed
  have bin: "binade x = (if 2 powi d \<le> \<bar>x\<bar> then d else d - 1)"
    by (simp add: binade_def pq a(2) b(2) d_def)
  show ?thesis using up lo unfolding bin by auto
qed

lemma round_to_double_error: "\<bar>round_to_double x - x\<bar> \<le> \<bar>x\<bar> / 2 ^ 53"
proof (cases "x = 0")
  case True
  then show ?thesis by (simp add: round_to_double_def)
next
  case False
  define u :: rat where "u = 2 powi (binade x - 52)"
  have u: "0 < u" by (simp add: u_def)
  have r: "round_to_double x = of_int (round_half_even (x / u)) * u"
    using False by (simp add: round_to_double_def u_def Let_def)
  have "of_int (round_half_even (x / u)) * u - x = (of_int (round_half_even (x / u)) - x / u) * u"
    using u by (simp add: algebra_simps)
  then have "\<bar>round_to_double x - x\<bar> = \<bar>of_int (round_half_even (x / u)) - x / u\<bar> * u"
    unfolding r using u by (simp add: abs_mult)
  also have "\<dots> \<le> 1 / 2 * u"
    using round_half_even_error [of "x / u"] u by (intro mult_right_mono) simp_all
  also have "1 / 2 * u = 2 powi (binade x) / 2 ^ 53"
  proof -
    have "u = 2 powi (binade x) / 2 powi 52" unfolding u_def by (simp add: power_int_diff)
    then show ?thesis by simp
  qed
  also have "\<dots> \<le> \<bar>x\<bar> / 2 ^ 53"
    using binade_bounds [OF False] by (simp add: divide_right_mono)
  finally show ?thesis .
qed

lemma double_18_10: "round_to_double (18 / 10) = 8106479329266893 / 4503599627370496"
  by code_simp

lemma double_27315_100: "round_to_double (27315 / 100) = 4805305618032230 / 17592186044416"
  by code_simp

lemma to_fahrenheit_25: "to_fahrenheit 25 = 77"
  by code_simp

lemma to_fahrenheit_error:
  assumes "0 \<le> c" and "c \<le> 255"
  shows "\<bar>to_fahrenheit c - (c * 18 / 10 + 32)\<bar> \<le> 1 / 2 ^ 42"
proof -
  define k :: rat where "k = 8106479329266893 / 4503599627370496"
  define e :: rat where "e = 1 / 2 ^ 53"
  define p where "p = c * k"
  define t where "t = round_to_double p"
  define r where "r = round_to_double (t + 32)"
  have f: "to_fahrenheit c = r"
    by (simp only: to_fahrenheit_def dmul_def dadd_def double_18_10 k_def p_def t_def r_def)
  have e: "0 \<le> e" "e \<le> 1 / 1000" by (simp_all add: e_def)
  have p0: "0 \<le> p" using assms by (simp add: p_def k_def)
  have "p \<le> 255 * k" using assms by (simp add: p_def k_def)
  then have p1: "p \<le> 460" by (simp add: k_def)
  have "\<bar>t - p\<bar> \<le> \<bar>p\<bar> / 2 ^ 53" unfolding t_def by (rule round_to_double_error)
  then have "\<bar>t - p\<bar> \<le> p * e" using p0 by (simp add: e_def)
  moreover have "p * e \<le> 460 * e" using p1 e(1) by (rule mult_right_mono)
  ultimately have et: "\<bar>t - p\<bar> \<le> 460 * e" by linarith
  then have t0: "0 \<le> t + 32" and t1: "t + 32 \<le> 493" using p0 p1 e by linarith+
  have "\<bar>r - (t + 32)\<bar> \<le> \<bar>t + 32\<bar> / 2 ^ 53" unfolding r_def by (rule round_to_double_error)
  then have "\<bar>r - (t + 32)\<bar> \<le> (t + 32) * e" using t0 by (simp add: e_def)
  moreover have "(t + 32) * e \<le> 493 * e" using t1 e(1) by (rule mult_right_mono)
  ultimately have er: "\<bar>r - (t + 32)\<bar> \<le> 493 * e" by linarith
  have "p - c * 18 / 10 = c * (k - 18 / 10)" by (simp add: p_def algebra_simps)
  moreover have "\<bar>k - 18 / 10\<bar> \<le> 2 * e" by (simp add: k_def e_def)
  ultimately have "\<bar>p - c * 18 / 10\<bar> \<le> c * (2 * e)"
    using assms(1) by (simp only: abs_mult) (simp add: mult_left_mono)
  moreover have "c * (2 * e) \<le> 255 * (2 * e)" using assms(2) e(1) by (intro mult_right_mono) simp_all
  ultimately have ek: "\<bar>p - c * 18 / 10\<bar> \<le> 510 * e" by linarith
  have "\<bar>r - (c * 18 / 10 + 32)\<bar> \<le> 1463 * e" using et er ek by linarith
  moreover have "1463 * e \<le> 1 / 2 ^ 42" by (simp add: e_def)
  ultimately show ?thesis unfolding f by linarith
qed

lemma to_kelvin_error:
  assumes "0 \<le> c" and "c \<le> 255"
  shows "\<bar>to_kelvin c - (c + 27315 / 100)\<bar> \<le> 1 / 2 ^ 42"
proof -
  define k :: rat where "k = 4805305618032230 / 17592186044416"
  define r where "r = round_to_double (c + k)"
  have f: "to_kelvin c = r"
    by (simp only: to_kelvin_def dadd_def double_27315_100 k_def r_def)
  have s0: "0 \<le> c + k" and s1: "c + k \<le> 529" using assms by (simp_all add: k_def)
  have "\<bar>r - (c + k)\<bar> \<le> \<bar>c + k\<bar> / 2 ^ 53" unfolding r_def by (rule round_to_double_error)
  then have er: "\<bar>r - (c + k)\<bar> \<le> 529 / 2 ^ 53" using s0 s1 by simp
  have ek: "\<bar>k - 27315 / 100\<bar> \<le> 1 / 2 ^ 44" by (simp add: k_def)
  have "\<bar>r - (c + 27315 / 100)\<bar> \<le> 529 / 2 ^ 53 + 1 / 2 ^ 44" using er ek by linarith
  then show ?thesis unfolding f by simp
qed

lemma byte_as_double: "0 \<le> (of_nat (unat (b :: 8 word)) :: rat) \<and> (of_nat (unat b) :: rat) \<le> 255"
proof -
  have "unat b < 2 ^ 8" using unsigned_less [of b] by simp
  then have "unat b \<le> 255" by simp
  then have "(of_nat (unat b) :: rat) \<le> of_nat 255" by (simp only: of_nat_le_iff)
  then show ?thesis by (simp del: of_nat_unat)
qed

text \<open>
  Claim C8. \<^verbatim>\<open>to_fahrenheit\<close> and \<^verbatim>\<open>to_kelvin\<close> are functions of the temperature alone
  (they take and return a \<^verbatim>\<open>double\<close>, and neither reads nor changes the machine).
  When the read succeeds with size 2 and type \<^verbatim>\<open>sp78\<close>, \<^verbatim>\<open>get_tmp\<close> takes the first
  payload byte as the Celsius value \<open>c\<close> and returns \<open>c\<close>, \<^verbatim>\<open>to_fahrenheit(c)\<close> or
  \<^verbatim>\<open>to_kelvin(c)\<close> for the unit asked. The two conversions are computed in binary64:
  their results are within \<open>2 ^ -42\<close> of \<open>c * 1.8 + 32\<close> and of \<open>c + 273.15\<close>, and for
  the byte 25 the Fahrenheit result is exactly 77.
\<close>

theorem get_tmp_conversion:
  fixes io :: "('w::len) word iokit"
  assumes "read_smc io skey m = (kIOReturnSuccess, result_smc, m')"
    and "dataSize result_smc = 2"
    and "dataType result_smc = to_uint32_t DATA_TYPE_SP78"
  shows "(let c = of_nat (unat (data result_smc ! 0))
          in get_tmp io skey CELSIUS m = (c, m') \<and>
             get_tmp io skey FAHRENHEIT m = (to_fahrenheit c, m') \<and>
             get_tmp io skey KELVIN m = (to_kelvin c, m') \<and>
             \<bar>to_fahrenheit c - (c * 18 / 10 + 32)\<bar> \<le> 1 / 2 ^ 42 \<and>
             \<bar>to_kelvin c - (c + 27315 / 100)\<bar> \<le> 1 / 2 ^ 42 \<and>
             (data result_smc ! 0 = 25 \<longrightarrow> get_tmp io skey FAHRENHEIT m = (77, m')))"
proof -
  define c :: rat where "c = of_nat (unat (data result_smc ! 0))"
  have g: "get_tmp io skey unit m =
      (case unit of CELSIUS \<Rightarrow> c | FAHRENHEIT \<Rightarrow> to_fahrenheit c | KELVIN \<Rightarrow> to_kelvin c, m')"
    for unit
    unfolding c_def using assms by (simp add: get_tmp_def Let_def del: of_nat_unat)
  have b: "0 \<le> c" "c \<le> 255" using byte_as_double [of "data result_smc ! 0"] by (simp_all add: c_def del: of_nat_unat)
  have 1: "get_tmp io skey CELSIUS m = (c, m')" by (simp add: g)
  have 2: "get_tmp io skey FAHRENHEIT m = (to_fahrenheit c, m')" by (simp add: g)
  have 3: "get_tmp io skey KELVIN m = (to_kelvin c, m')" by (simp add: g)
  have 4: "\<bar>to_fahrenheit c - (c * 18 / 10 + 32)\<bar> \<le> 1 / 2 ^ 42"
    using b by (rule to_fahrenheit_error)
  have 5: "\<bar>to_kelvin c - (c + 27315 / 100)\<bar> \<le> 1 / 2 ^ 42"
    using b by (rule to_kelvin_error)
  have 6: "get_tmp io skey FAHRENHEIT m = (77, m')" if "data result_smc ! 0 = 25"
  proof -
    from that have "c = 25" by (simp add: c_def del: of_nat_unat)
    then show ?thesis by (simp only: 2 to_fahrenheit_25)
  qed
  show ?thesis unfolding Let_def c_def [symmetric] using 1 2 3 4 5 6 by blast
qed

text \<open>The theorem at a channel whose payload starts with the byte 25, in Fahrenheit.\<close>

theorem get_tmp_conversion_witness:
  "fst (get_tmp (stub_iokit kIOReturnSuccess 0 2 ''sp78'' kIOReturnSuccess 0
                   (25 # replicate 31 0))
          ''TC0D'' FAHRENHEIT initial_machine) = 77"
proof -
  let ?io = "stub_iokit kIOReturnSuccess 0 2 ''sp78'' kIOReturnSuccess 0
               (25 # replicate 31 0) :: 64 word iokit"
  let ?r = "read_smc ?io ''TC0D'' initial_machine"
  have e1: "fst ?r = kIOReturnSuccess" by code_simp
  have h1: "?r = (kIOReturnSuccess, fst (snd ?r), snd (snd ?r))"
    using e1 by (metis prod.collapse)
  have h2: "dataSize (fst (snd ?r)) = 2" by code_simp
  have h3: "dataType (fst (snd ?r)) = to_uint32_t DATA_TYPE_SP78" by code_simp
  have e: "data (fst (snd ?r)) ! 0 = 25" by code_simp
  from get_tmp_conversion [OF h1 h2 h3]
  have "data (fst (snd ?r)) ! 0 = 25 \<longrightarrow>
        get_tmp ?io ''TC0D'' FAHRENHEIT initial_machine = (77, snd (snd ?r))"
    unfolding Let_def by (elim conjE)
  with e show ?thesis by simp
qed

end
